theory Spec2Isabelle
  imports
    Complex_Main
    "HOL-Library.Word"
    "HOL-Library.AList"
    "HOL-Library.Product_Lexorder"
    "HOL-Library.List_Lexorder"
    "HOL-Library.Char_ord"
begin

section \<open>The multi-tier cache (cache\_lru\_multinivel.py)\<close>

subsection \<open>Data model\<close>

text \<open>
  Python \<open>bytes\<close> are lists of 8-bit words. Python \<open>int\<close>s (sizes, counters) are
  \<open>int\<close>. A \<open>datetime\<close> is the number of microseconds it denotes, an \<open>int\<close>: the
  ISO strings that the disk tier compares are ordered as the instants they denote.
  Every read of the clock (\<open>datetime.now()\<close>) is a parameter \<open>ahora\<close> of the operation
  that performs it.
\<close>

type_synonym bytes = "8 word list"

datatype NivelCache = L1_MEMORIA | L2_DISCO | L3_COMPRIMIDO

datatype TipoDato = TEXTO | IMAGEN | AUDIO | VIDEO | JSON | BINARIO | ENTIDADES

text \<open>
  A cached Python value: \<open>None\<close>, a \<open>bytes\<close> object (what \<open>isinstance(valor, bytes)\<close>
  recognises), or any other object.
\<close>

datatype 'a valor = PyNone | PyBytes bytes | PyObj 'a

record MetadataCache =
  clave :: string
  tamano_bytes :: int
  tipo_dato :: TipoDato
  timestamp_creacion :: int
  timestamp_acceso :: int
  frecuencia_acceso :: int
  nivel_cache :: NivelCache
  comprimido :: bool
  checksum :: string
  tiempo_computacion :: real
  prioridad :: int

text \<open>
  The two floating-point statistics (\<open>tiempo_promedio_acceso\<close>, \<open>memoria_utilizada_mb\<close>)
  are measurements of the host and are left out.
\<close>

record EstadisticasCache =
  hits_l1 :: int
  hits_l2 :: int
  hits_l3 :: int
  misses :: int
  evictions :: int
  bytes_almacenados :: int

definition EstadisticasCache_nuevas :: EstadisticasCache where
  "EstadisticasCache_nuevas =
     \<lparr>hits_l1 = 0, hits_l2 = 0, hits_l3 = 0, misses = 0, evictions = 0, bytes_almacenados = 0\<rparr>"

text \<open>
  The library functions the cache calls, taken as parameters: \<open>pickle.dumps\<close> and
  \<open>pickle.loads\<close> (\<open>None\<close> when they raise), \<open>gzip.compress\<close> at a level,
  \<open>gzip.decompress\<close> (\<open>None\<close> when it raises) and \<open>hashlib.sha256(...).hexdigest()\<close>.
\<close>

record 'a biblioteca =
  pickle_dumps :: "'a valor \<Rightarrow> bytes option"
  pickle_loads :: "bytes \<Rightarrow> 'a valor option"
  gzip_compress :: "nat \<Rightarrow> bytes \<Rightarrow> bytes"
  gzip_decompress :: "bytes \<Rightarrow> bytes option"
  sha256_hexdigest :: "bytes \<Rightarrow> string"

subsection \<open>CompresorInteligente\<close>

definition comprimir :: "'a biblioteca \<Rightarrow> bytes \<Rightarrow> TipoDato \<Rightarrow> bytes \<times> real" where
  "comprimir lib datos_in tipo =
     (let tamano_original = length datos_in;
          nivel_compresion = (if tipo = TEXTO \<or> tipo = JSON then 6 else 3);
          datos_comprimidos = gzip_compress lib nivel_compresion datos_in;
          ratio = (if datos_comprimidos \<noteq> []
                   then real tamano_original / real (length datos_comprimidos) else 1)
      in (datos_comprimidos, ratio))"

definition descomprimir :: "'a biblioteca \<Rightarrow> bytes \<Rightarrow> bytes" where
  "descomprimir lib datos_comprimidos =
     (case gzip_decompress lib datos_comprimidos of
        Some d \<Rightarrow> d
      | None \<Rightarrow> datos_comprimidos)"

subsection \<open>CacheL1Memoria\<close>

text \<open>
  The source keeps an \<open>OrderedDict\<close> \<open>datos\<close> (key to value) and a dict \<open>metadatos\<close>
  (key to metadata). \<open>put\<close>, \<open>_evict_lru\<close> and \<open>clear\<close> are the only writers and write
  both under the lock, so the two always have the same keys; the model keeps one
  association list from the key to the pair, in the order of \<open>datos\<close>: the head is the
  entry \<open>next(iter(self.datos))\<close> returns. \<open>tamano_actual\<close> is the running counter of the
  source, not a sum recomputed from the entries.
\<close>

record 'a CacheL1Memoria =
  capacidad_bytes :: int
  datos :: "(string \<times> 'a valor \<times> MetadataCache) list"
  tamano_actual :: int

definition CacheL1Memoria_get ::
  "int \<Rightarrow> string \<Rightarrow> 'a CacheL1Memoria \<Rightarrow> ('a valor \<times> MetadataCache) option \<times> 'a CacheL1Memoria" where
  "CacheL1Memoria_get ahora k c =
     (case map_of (datos c) k of
        Some (v, metadata) \<Rightarrow>
          (let metadata' = metadata\<lparr>timestamp_acceso := ahora,
                                      frecuencia_acceso := frecuencia_acceso metadata + 1\<rparr>
           in (Some (v, metadata'),
               c\<lparr>datos := AList.delete k (datos c) @ [(k, v, metadata')]\<rparr>))
      | None \<Rightarrow> (None, c))"

definition CacheL1Memoria_evict_lru :: "'a CacheL1Memoria \<Rightarrow> string option \<times> 'a CacheL1Memoria" where
  "CacheL1Memoria_evict_lru c =
     (case datos c of
        [] \<Rightarrow> (None, c)
      | (clave_lru, v, metadata) # resto \<Rightarrow>
          (Some clave_lru,
           c\<lparr>datos := resto, tamano_actual := tamano_actual c - tamano_bytes metadata\<rparr>))"

text \<open>The \<open>while\<close> loop of \<open>put\<close>: evict the oldest entry while the new one does not fit.\<close>

function CacheL1Memoria_put_evict :: "int \<Rightarrow> 'a CacheL1Memoria \<Rightarrow> 'a CacheL1Memoria" where
  "CacheL1Memoria_put_evict tamano c =
     (if tamano_actual c + tamano > capacidad_bytes c \<and> length (datos c) > 0
      then CacheL1Memoria_put_evict tamano (snd (CacheL1Memoria_evict_lru c))
      else c)"
  by pat_completeness auto
termination
  by (relation "measure (\<lambda>(tamano, c). length (datos c))")
     (auto simp: CacheL1Memoria_evict_lru_def split: list.splits)

declare CacheL1Memoria_put_evict.simps [simp del]

definition CacheL1Memoria_put ::
  "string \<Rightarrow> 'a valor \<Rightarrow> MetadataCache \<Rightarrow> 'a CacheL1Memoria \<Rightarrow> 'a CacheL1Memoria" where
  "CacheL1Memoria_put k v metadata c =
     (let c1 = (case map_of (datos c) k of
                  Some (v_ant, metadata_ant) \<Rightarrow>
                    c\<lparr>datos := AList.delete k (datos c),
                      tamano_actual := tamano_actual c - tamano_bytes metadata_ant\<rparr>
                | None \<Rightarrow> c);
          c2 = CacheL1Memoria_put_evict (tamano_bytes metadata) c1
      in c2\<lparr>datos := datos c2 @ [(k, v, metadata)],
            tamano_actual := tamano_actual c2 + tamano_bytes metadata\<rparr>)"

definition CacheL1Memoria_clear :: "'a CacheL1Memoria \<Rightarrow> 'a CacheL1Memoria" where
  "CacheL1Memoria_clear c = c\<lparr>datos := [], tamano_actual := 0\<rparr>"

text \<open>
  The consistency of a memory tier: the keys of \<open>datos\<close> are distinct, as those of a
  dict are, and the counter is the sum of the sizes of the entries.
\<close>

definition CacheL1Memoria_inv :: "'a CacheL1Memoria \<Rightarrow> bool" where
  "CacheL1Memoria_inv c =
     (distinct (map fst (datos c))
      \<and> tamano_actual c = (\<Sum>e\<leftarrow>datos c. tamano_bytes (snd (snd e))))"

subsection \<open>CacheL2Disco\<close>

text \<open>
  The directory of the disk tier is the association list \<open>archivos\<close>: the content of
  the file \<open>{clave}.cache\<close> under its key. \<open>metadatos\<close> is the dict that is saved to
  \<open>metadata.json\<close>, in insertion order, which is the order \<open>min\<close> scans. The model
  takes the file system to work: no read, write or unlink fails.
\<close>

record CacheL2Disco =
  capacidad_bytes :: int
  archivos :: "(string \<times> bytes) list"
  metadatos :: "(string \<times> MetadataCache) list"

definition calcular_tamano_actual :: "CacheL2Disco \<Rightarrow> int" where
  "calcular_tamano_actual c = sum_list (map (\<lambda>(k, contenido). int (length contenido)) (archivos c))"

definition eliminar_archivo :: "string \<Rightarrow> CacheL2Disco \<Rightarrow> CacheL2Disco" where
  "eliminar_archivo k c =
     c\<lparr>archivos := AList.delete k (archivos c), metadatos := AList.delete k (metadatos c)\<rparr>"

text \<open>
  \<open>min(self.metadatos.keys(), key=...)\<close>: the first key, in the order of the dict,
  whose access time is the least.
\<close>

fun min_timestamp_acceso ::
  "string \<times> MetadataCache \<Rightarrow> (string \<times> MetadataCache) list \<Rightarrow> string" where
  "min_timestamp_acceso mejor [] = fst mejor"
| "min_timestamp_acceso mejor (x # xs) =
     min_timestamp_acceso
       (if timestamp_acceso (snd x) < timestamp_acceso (snd mejor) then x else mejor) xs"

function limpiar_espacio :: "int \<Rightarrow> CacheL2Disco \<Rightarrow> CacheL2Disco" where
  "limpiar_espacio bytes_necesarios c =
     (if calcular_tamano_actual c + bytes_necesarios > CacheL2Disco.capacidad_bytes c
      then (case metadatos c of
              [] \<Rightarrow> c
            | m # ms \<Rightarrow>
                limpiar_espacio bytes_necesarios (eliminar_archivo (min_timestamp_acceso m ms) c))
      else c)"
  by pat_completeness auto
termination
proof (relation "measure (\<lambda>(bytes_necesarios, c). length (metadatos c))", goal_cases)
  case 1
  show ?case by simp
next
  case (2 bytes_necesarios c m ms)
  have mem: "min_timestamp_acceso b xs \<in> fst ` set (b # xs)" for b xs
    by (induction xs arbitrary: b) auto
  have shorter: "k \<in> fst ` set xs \<Longrightarrow> length (AList.delete k xs) < length xs"
    for k :: string and xs :: "(string \<times> MetadataCache) list"
    by (auto simp: AList.delete_eq intro!: length_filter_less)
  from 2 mem [of m ms] have "min_timestamp_acceso m ms \<in> fst ` set (metadatos c)"
    by simp
  from shorter [OF this] show ?case
    by (simp add: eliminar_archivo_def)
qed

declare limpiar_espacio.simps [simp del]

definition CacheL2Disco_get ::
  "'a biblioteca \<Rightarrow> int \<Rightarrow> string \<Rightarrow> CacheL2Disco \<Rightarrow> ('a valor \<times> MetadataCache) option \<times> CacheL2Disco" where
  "CacheL2Disco_get lib ahora k c =
     (case map_of (metadatos c) k of
        None \<Rightarrow> (None, c)
      | Some meta_dict \<Rightarrow>
          (case map_of (archivos c) k of
             None \<Rightarrow> (None, c)
           | Some contenido \<Rightarrow>
               (case pickle_loads lib contenido of
                  None \<Rightarrow> (None, c)
                | Some datos_leidos \<Rightarrow>
                    (let metadata = meta_dict\<lparr>timestamp_acceso := ahora,
                                              frecuencia_acceso := frecuencia_acceso meta_dict + 1\<rparr>
                     in (Some (datos_leidos, metadata),
                         c\<lparr>metadatos := AList.update k metadata (metadatos c)\<rparr>)))))"

text \<open>
  \<open>put\<close> frees space, writes the file and then the metadata. When \<open>pickle.dump\<close>
  raises, \<open>open(archivo, 'wb')\<close> has already created the file, empty, and the metadata
  are not written.
\<close>

definition CacheL2Disco_put ::
  "'a biblioteca \<Rightarrow> string \<Rightarrow> 'a valor \<Rightarrow> MetadataCache \<Rightarrow> CacheL2Disco \<Rightarrow> CacheL2Disco" where
  "CacheL2Disco_put lib k v metadata c =
     (let c1 = limpiar_espacio (tamano_bytes metadata) c
      in case pickle_dumps lib v of
           None \<Rightarrow> c1\<lparr>archivos := AList.update k [] (archivos c1)\<rparr>
         | Some contenido \<Rightarrow>
             c1\<lparr>archivos := AList.update k contenido (archivos c1),
                metadatos := AList.update k metadata (metadatos c1)\<rparr>)"

subsection \<open>CacheMultinivel\<close>

text \<open>
  The source compares a size with \<open>capacidad_bytes * 0.1\<close> and \<open>capacidad_bytes * 0.05\<close>
  in floating point. The doubles nearest to 0.1 and 0.05 lie above them by less than one
  part in \<open>10^16\<close>, so for sizes and capacities below \<open>2^40\<close> the comparisons agree
  with the exact ones, written here without division: \<open>10 * n \<le> capacidad\<close> and
  \<open>20 * n \<le> capacidad\<close>.
\<close>

record 'a CacheMultinivel =
  cache_l1 :: "'a CacheL1Memoria"
  cache_l2 :: CacheL2Disco
  habilitar_compresion :: bool
  auto_limpieza :: bool
  estadisticas :: EstadisticasCache

text \<open>
  The constructor, on an empty cache directory:
  \<open>capacidad_bytes = int(capacidad_mb * 1024 * 1024)\<close> in both tiers, for capacities
  that are not negative.
\<close>

definition CacheMultinivel_init :: "real \<Rightarrow> real \<Rightarrow> bool \<Rightarrow> bool \<Rightarrow> 'a CacheMultinivel" where
  "CacheMultinivel_init l1_capacidad_mb l2_capacidad_mb compresion limpieza =
     \<lparr>cache_l1 = \<lparr>CacheL1Memoria.capacidad_bytes = \<lfloor>l1_capacidad_mb * 1024 * 1024\<rfloor>,
                  datos = [], tamano_actual = 0\<rparr>,
      cache_l2 = \<lparr>CacheL2Disco.capacidad_bytes = \<lfloor>l2_capacidad_mb * 1024 * 1024\<rfloor>,
                  archivos = [], metadatos = []\<rparr>,
      habilitar_compresion = compresion,
      auto_limpieza = limpieza,
      estadisticas = EstadisticasCache_nuevas\<rparr>"

definition CacheMultinivel_put ::
  "'a biblioteca \<Rightarrow> int \<Rightarrow> string \<Rightarrow> 'a valor \<Rightarrow> TipoDato \<Rightarrow> real \<Rightarrow> int \<Rightarrow> 'a CacheMultinivel
     \<Rightarrow> bool \<times> 'a CacheMultinivel" where
  "CacheMultinivel_put lib ahora k v tipo t_computacion prio c =
     (case pickle_dumps lib v of
        None \<Rightarrow> (False, c)
      | Some datos_serializados \<Rightarrow>
          (let tamano_original = int (length datos_serializados);
               metadata = \<lparr>clave = k, tamano_bytes = tamano_original, tipo_dato = tipo,
                           timestamp_creacion = ahora, timestamp_acceso = ahora,
                           frecuencia_acceso = 1, nivel_cache = L1_MEMORIA, comprimido = False,
                           checksum = sha256_hexdigest lib datos_serializados,
                           tiempo_computacion = t_computacion, prioridad = prio\<rparr>
           in if 10 * tamano_original \<le> CacheL1Memoria.capacidad_bytes (cache_l1 c)
              then (True,
                    c\<lparr>cache_l1 := CacheL1Memoria_put k v metadata (cache_l1 c),
                      estadisticas := (estadisticas c)\<lparr>bytes_almacenados :=
                        bytes_almacenados (estadisticas c) + tamano_original\<rparr>\<rparr>)
              else
                (let datos_comprimidos = fst (comprimir lib datos_serializados tipo);
                     valor_a_guardar =
                       (if habilitar_compresion c then PyBytes datos_comprimidos else v);
                     metadata1 =
                       (if habilitar_compresion c
                        then metadata\<lparr>comprimido := True,
                                      tamano_bytes := int (length datos_comprimidos)\<rparr>
                        else metadata);
                     metadata2 = metadata1\<lparr>nivel_cache := L2_DISCO\<rparr>
                 in (True,
                     c\<lparr>cache_l2 := CacheL2Disco_put lib k valor_a_guardar metadata2 (cache_l2 c),
                       estadisticas := (estadisticas c)\<lparr>bytes_almacenados :=
                         bytes_almacenados (estadisticas c) + tamano_bytes metadata2\<rparr>\<rparr>))))"

text \<open>
  \<open>get\<close> returns Python's \<open>None\<close> on a miss and on any exception (then counted as a
  miss). The only step after the tier lookups that can raise is \<open>pickle.loads\<close> of the
  decompressed bytes.
\<close>

definition CacheMultinivel_get ::
  "'a biblioteca \<Rightarrow> int \<Rightarrow> string \<Rightarrow> 'a CacheMultinivel \<Rightarrow> 'a valor \<times> 'a CacheMultinivel" where
  "CacheMultinivel_get lib ahora k c =
     (case CacheL1Memoria_get ahora k (cache_l1 c) of
        (Some (v, metadata), l1) \<Rightarrow>
          (v, c\<lparr>cache_l1 := l1,
                estadisticas := (estadisticas c)\<lparr>hits_l1 := hits_l1 (estadisticas c) + 1\<rparr>\<rparr>)
      | (None, l1) \<Rightarrow>
          (case CacheL2Disco_get lib ahora k (cache_l2 c) of
             (Some (v, metadata), l2) \<Rightarrow>
               (let c1 = c\<lparr>cache_l1 := l1, cache_l2 := l2,
                           estadisticas := (estadisticas c)\<lparr>hits_l2 := hits_l2 (estadisticas c) + 1\<rparr>\<rparr>;
                    descomprimido =
                      (case v of
                         PyBytes b \<Rightarrow>
                           (if comprimido metadata then pickle_loads lib (descomprimir lib b)
                            else Some v)
                       | _ \<Rightarrow> Some v)
                in case descomprimido of
                     None \<Rightarrow>
                       (PyNone,
                        c1\<lparr>estadisticas := (estadisticas c1)\<lparr>misses := misses (estadisticas c1) + 1\<rparr>\<rparr>)
                   | Some v' \<Rightarrow>
                       (v',
                        if 20 * tamano_bytes metadata \<le> CacheL1Memoria.capacidad_bytes (cache_l1 c1)
                           \<and> frecuencia_acceso metadata \<ge> 3
                        then c1\<lparr>cache_l1 := CacheL1Memoria_put k v' metadata (cache_l1 c1)\<rparr>
                        else c1))
           | (None, l2) \<Rightarrow>
               (PyNone,
                c\<lparr>cache_l1 := l1, cache_l2 := l2,
                  estadisticas := (estadisticas c)\<lparr>misses := misses (estadisticas c) + 1\<rparr>\<rparr>)))"

text \<open>
  \<open>_limpieza_automatica\<close>: a quarter of the entries of the memory tier, oldest first,
  each counted as an eviction. The monitor thread calls it when the host's memory use
  reaches the high-water mark; \<open>monitor_continuo\<close> is one round of that thread, with the
  sampled memory use as a parameter.
\<close>

fun limpieza_bucle :: "nat \<Rightarrow> 'a CacheMultinivel \<Rightarrow> 'a CacheMultinivel" where
  "limpieza_bucle 0 c = c"
| "limpieza_bucle (Suc n) c =
     limpieza_bucle n
       (if datos (cache_l1 c) \<noteq> []
        then c\<lparr>cache_l1 := snd (CacheL1Memoria_evict_lru (cache_l1 c)),
               estadisticas := (estadisticas c)\<lparr>evictions := evictions (estadisticas c) + 1\<rparr>\<rparr>
        else c)"

definition limpieza_automatica :: "'a CacheMultinivel \<Rightarrow> 'a CacheMultinivel" where
  "limpieza_automatica c = limpieza_bucle (length (datos (cache_l1 c)) div 4) c"

definition monitor_continuo :: "real \<Rightarrow> 'a CacheMultinivel \<Rightarrow> 'a CacheMultinivel" where
  "monitor_continuo uso_memoria c =
     (if auto_limpieza c \<and> uso_memoria \<ge> 75 then limpieza_automatica c else c)"

definition limpiar_todo :: "'a CacheMultinivel \<Rightarrow> 'a CacheMultinivel" where
  "limpiar_todo c =
     c\<lparr>cache_l1 := CacheL1Memoria_clear (cache_l1 c),
       cache_l2 := (cache_l2 c)\<lparr>archivos := [], metadatos := []\<rparr>,
       estadisticas := EstadisticasCache_nuevas\<rparr>"

section \<open>The task queue and the scheduler (sistema\_paralelizacion\_ultraavanzado.py)\<close>

subsection \<open>Data model\<close>

datatype PrioridadTarea = BAJA | NORMAL | ALTA | CRITICA

datatype EstadoTarea = PENDIENTE | EN_COLA | EN_PROCESO | COMPLETADA | FALLIDA | CANCELADA

datatype TipoWorker = CPU_INTENSIVO | IO_INTENSIVO | MEMORIA_INTENSIVO | GENERAL

text \<open>
  A task. \<open>funcion\<close> stands for the callable together with its \<open>args\<close> and \<open>kwargs\<close>;
  the field \<open>id\<close> of the source is \<open>id_tarea\<close>. \<open>resultado\<close> is Python's \<open>None\<close>
  until the task completes.
\<close>

record ('f, 'a) TareaParalelizacion =
  id_tarea :: string
  funcion :: 'f
  prioridad :: PrioridadTarea
  tipo_worker :: TipoWorker
  timeout :: real
  retries :: int
  dependencias :: "string list"
  metadata :: "(string \<times> string) list"
  timestamp_creacion :: int
  timestamp_inicio :: "int option"
  timestamp_finalizacion :: "int option"
  estado :: EstadoTarea
  resultado :: "'a valor"
  error :: "string option"

subsection \<open>QueueInteligente\<close>

text \<open>
  \<open>tareas\<close> is the dict of every task the queue has accepted, by id; the source never
  removes an entry, and \<open>len(self.tareas)\<close> is the length of the association list (it is
  written only through \<open>AList.update\<close>, which keeps the keys distinct). \<open>cola_prioridad\<close>
  holds one \<open>queue.PriorityQueue\<close> per priority: a min-heap of pairs
  \<open>(timestamp_negativo, id)\<close> under Python's tuple order, kept here as the sorted list of
  its entries, so that \<open>get\<close> takes the head.
\<close>

record ('f, 'a) QueueInteligente =
  max_size :: int
  tareas :: "(string \<times> ('f, 'a) TareaParalelizacion) list"
  cola_prioridad :: "PrioridadTarea \<Rightarrow> (int \<times> string) list"

definition QueueInteligente_init :: "int \<Rightarrow> ('f, 'a) QueueInteligente" where
  "QueueInteligente_init n = \<lparr>max_size = n, tareas = [], cola_prioridad = (\<lambda>p. [])\<rparr>"

definition agregar_tarea ::
  "('f, 'a) TareaParalelizacion \<Rightarrow> ('f, 'a) QueueInteligente \<Rightarrow> bool \<times> ('f, 'a) QueueInteligente" where
  "agregar_tarea tarea q =
     (if max_size q > 0 \<and> int (length (tareas q)) \<ge> max_size q then (False, q)
      else
        (let timestamp_negativo = - TareaParalelizacion.timestamp_creacion tarea
         in (True,
             q\<lparr>tareas := AList.update (id_tarea tarea) (tarea\<lparr>estado := EN_COLA\<rparr>) (tareas q),
               cola_prioridad := (cola_prioridad q)
                 (TareaParalelizacion.prioridad tarea :=
                    insort (timestamp_negativo, id_tarea tarea)
                      (cola_prioridad q (TareaParalelizacion.prioridad tarea)))\<rparr>)))"

text \<open>
  The \<open>for\<close> loop of \<open>obtener_tarea\<close> over the priorities. An entry whose id is not in
  \<open>tareas\<close> is dropped and the scan goes on with the next priority.
\<close>

fun obtener_tarea_bucle ::
  "int \<Rightarrow> PrioridadTarea list \<Rightarrow> ('f, 'a) QueueInteligente
     \<Rightarrow> ('f, 'a) TareaParalelizacion option \<times> ('f, 'a) QueueInteligente" where
  "obtener_tarea_bucle ahora [] q = (None, q)"
| "obtener_tarea_bucle ahora (p # ps) q =
     (case cola_prioridad q p of
        [] \<Rightarrow> obtener_tarea_bucle ahora ps q
      | (ts, tarea_id) # resto \<Rightarrow>
          (let q1 = q\<lparr>cola_prioridad := (cola_prioridad q)(p := resto)\<rparr>
           in case map_of (tareas q1) tarea_id of
                Some tarea \<Rightarrow>
                  (let tarea' = tarea\<lparr>estado := EN_PROCESO, timestamp_inicio := Some ahora\<rparr>
                   in (Some tarea', q1\<lparr>tareas := AList.update tarea_id tarea' (tareas q1)\<rparr>))
              | None \<Rightarrow> obtener_tarea_bucle ahora ps q1))"

definition obtener_tarea ::
  "int \<Rightarrow> ('f, 'a) QueueInteligente \<Rightarrow> ('f, 'a) TareaParalelizacion option \<times> ('f, 'a) QueueInteligente" where
  "obtener_tarea ahora q = obtener_tarea_bucle ahora [CRITICA, ALTA, NORMAL, BAJA] q"

definition cancelar_tarea ::
  "int \<Rightarrow> string \<Rightarrow> ('f, 'a) QueueInteligente \<Rightarrow> bool \<times> ('f, 'a) QueueInteligente" where
  "cancelar_tarea ahora tarea_id q =
     (case map_of (tareas q) tarea_id of
        Some tarea \<Rightarrow>
          (True,
           q\<lparr>tareas := AList.update tarea_id
                (tarea\<lparr>estado := CANCELADA, timestamp_finalizacion := Some ahora\<rparr>) (tareas q)\<rparr>)
      | None \<Rightarrow> (False, q))"

definition obtener_tarea_por_id ::
  "string \<Rightarrow> ('f, 'a) QueueInteligente \<Rightarrow> ('f, 'a) TareaParalelizacion option" where
  "obtener_tarea_por_id tarea_id q = map_of (tareas q) tarea_id"

definition contar_estado :: "EstadoTarea \<Rightarrow> ('f, 'a) QueueInteligente \<Rightarrow> int" where
  "contar_estado e q = int (length (filter (\<lambda>(k, t). estado t = e) (tareas q)))"

definition obtener_estadisticas :: "('f, 'a) QueueInteligente \<Rightarrow> (string \<times> int) list" where
  "obtener_estadisticas q =
     [(''total_tareas'', int (length (tareas q))),
      (''tareas_pendientes'', contar_estado EN_COLA q),
      (''tareas_en_proceso'', contar_estado EN_PROCESO q),
      (''tareas_completadas'', contar_estado COMPLETADA q),
      (''tareas_fallidas'', contar_estado FALLIDA q),
      (''tareas_canceladas'', contar_estado CANCELADA q)]"

text \<open>
  The tasks of the queue that have not reached a terminal state: the outstanding ones.
\<close>

definition tareas_no_terminales :: "('f, 'a) QueueInteligente \<Rightarrow> int" where
  "tareas_no_terminales q =
     contar_estado PENDIENTE q + contar_estado EN_COLA q + contar_estado EN_PROCESO q"

subsection \<open>SistemaParalelizacionUltraAvanzado\<close>

text \<open>
  The scheduler, as far as the cache and the queue are concerned: the worker pool, the
  load balancer and their metrics are not modelled. \<open>ejecuciones\<close> is not a field of the
  source: it records, in order, every call of a work function, so that a statement can
  say whether a function ran.
\<close>

record ('f, 'a) SistemaParalelizacion =
  cache :: "'a CacheMultinivel"
  queue_inteligente :: "('f, 'a) QueueInteligente"
  timeout_tarea :: real
  max_retries :: int
  tareas_totales :: int
  tareas_pendientes :: int
  tareas_completadas :: int
  tareas_fallidas :: int
  ejecuciones :: "'f list"

text \<open>Python's \<open>str\<close> of a natural number.\<close>

function str_nat :: "nat \<Rightarrow> string" where
  "str_nat n =
     (if n < 10 then [''0123456789'' ! n]
      else str_nat (n div 10) @ [''0123456789'' ! (n mod 10)])"
  by pat_completeness auto
termination
  by (relation "measure id") auto

declare str_nat.simps [simp del]

text \<open>
  \<open>f"tarea_{int(time.time() * 1000000)}_{hash(...) % 10000}"\<close>: \<open>reloj_us\<close> is the clock
  in microseconds and \<open>h\<close> the hash of the text of the call. A call of \<open>submit_tarea\<close>
  reads the clock once: the same reading stamps the id and the times of the task.
\<close>

definition generar_tarea_id :: "nat \<Rightarrow> int \<Rightarrow> string" where
  "generar_tarea_id reloj_us h = ''tarea_'' @ str_nat reloj_us @ ''_'' @ str_nat (nat (h mod 10000))"

definition cache_key_de :: "string \<Rightarrow> string" where
  "cache_key_de tarea_id = ''tarea_'' @ tarea_id @ ''_resultado''"

text \<open>
  \<open>submit_tarea\<close> returns the id, or raises (\<open>Inl\<close>) when the queue rejects the task.
  The second component is the task object the call has built, as it is when the call
  returns; priorities and worker types are passed as enum values.
\<close>

definition submit_tarea ::
  "'a biblioteca \<Rightarrow> nat \<Rightarrow> 'f \<Rightarrow> int \<Rightarrow> PrioridadTarea \<Rightarrow> TipoWorker \<Rightarrow> real option \<Rightarrow> int option
     \<Rightarrow> string list \<Rightarrow> (string \<times> string) list \<Rightarrow> ('f, 'a) SistemaParalelizacion
     \<Rightarrow> ((string + string) \<times> ('f, 'a) TareaParalelizacion) \<times> ('f, 'a) SistemaParalelizacion" where
  "submit_tarea lib reloj_us f h prio tipo t_out n_retries deps meta s =
     (let tarea_id = generar_tarea_id reloj_us h;
          ahora = int reloj_us;
          tarea = \<lparr>id_tarea = tarea_id, funcion = f, prioridad = prio, tipo_worker = tipo,
                   timeout = (case t_out of Some t \<Rightarrow> (if t \<noteq> 0 then t else timeout_tarea s)
                              | None \<Rightarrow> timeout_tarea s),
                   retries = (case n_retries of Some r \<Rightarrow> (if r \<noteq> 0 then r else max_retries s)
                              | None \<Rightarrow> max_retries s),
                   dependencias = deps, metadata = meta,
                   timestamp_creacion = ahora, timestamp_inicio = None,
                   timestamp_finalizacion = None, estado = PENDIENTE,
                   resultado = PyNone, error = None\<rparr>;
          cache_key = cache_key_de tarea_id;
          (resultado_cached, cache1) = CacheMultinivel_get lib ahora cache_key (cache s);
          s1 = s\<lparr>cache := cache1\<rparr>
      in if resultado_cached \<noteq> PyNone
         then ((Inr tarea_id,
                tarea\<lparr>estado := COMPLETADA, resultado := resultado_cached,
                      timestamp_finalizacion := Some ahora\<rparr>), s1)
         else (case agregar_tarea tarea (queue_inteligente s1) of
                 (True, q) \<Rightarrow>
                   ((Inr tarea_id, tarea\<lparr>estado := EN_COLA\<rparr>),
                    s1\<lparr>queue_inteligente := q,
                       tareas_totales := tareas_totales s1 + 1,
                       tareas_pendientes := tareas_pendientes s1 + 1\<rparr>)
               | (False, q) \<Rightarrow>
                   ((Inl ''No se pudo agregar tarea a la cola'', tarea),
                    s1\<lparr>queue_inteligente := q\<rparr>)))"

text \<open>
  \<open>_procesar_tarea_en_worker\<close>: \<open>ejecutar\<close> runs a work function under its timeout and
  returns its result, or \<open>Inl\<close> the message of the exception (a timeout included). The
  task object is the one the queue holds under its id, so the final state is written
  there.
\<close>

definition procesar_tarea_en_worker ::
  "'a biblioteca \<Rightarrow> ('f \<Rightarrow> string + 'a valor) \<Rightarrow> int \<Rightarrow> ('f, 'a) TareaParalelizacion
     \<Rightarrow> ('f, 'a) SistemaParalelizacion \<Rightarrow> ('f, 'a) SistemaParalelizacion" where
  "procesar_tarea_en_worker lib ejecutar ahora tarea s =
     (let s1 = s\<lparr>ejecuciones := ejecuciones s @ [funcion tarea]\<rparr>;
          q = queue_inteligente s1
      in case ejecutar (funcion tarea) of
           Inr r \<Rightarrow>
             (let cache1 = snd (CacheMultinivel_put lib ahora (cache_key_de (id_tarea tarea)) r
                                  JSON 0.1 5 (cache s1));
                  tarea' = tarea\<lparr>timestamp_finalizacion := Some ahora, estado := COMPLETADA,
                                 resultado := r\<rparr>
              in s1\<lparr>cache := cache1,
                    queue_inteligente :=
                      (case map_of (tareas q) (id_tarea tarea) of
                         Some t \<Rightarrow> q\<lparr>tareas := AList.update (id_tarea tarea) tarea' (tareas q)\<rparr>
                       | None \<Rightarrow> q),
                    tareas_completadas := tareas_completadas s1 + 1,
                    tareas_pendientes := tareas_pendientes s1 - 1\<rparr>)
         | Inl e \<Rightarrow>
             (let tarea' = tarea\<lparr>timestamp_finalizacion := Some ahora, estado := FALLIDA,
                                 error := Some e\<rparr>
              in s1\<lparr>queue_inteligente :=
                      (case map_of (tareas q) (id_tarea tarea) of
                         Some t \<Rightarrow> q\<lparr>tareas := AList.update (id_tarea tarea) tarea' (tareas q)\<rparr>
                       | None \<Rightarrow> q),
                    tareas_fallidas := tareas_fallidas s1 + 1,
                    tareas_pendientes := tareas_pendientes s1 - 1\<rparr>))"

text \<open>
  One round of the loop of \<open>_procesar_tareas_pendientes\<close> with a worker available: the
  next task is taken from the queue and processed.
\<close>

definition procesar_siguiente ::
  "'a biblioteca \<Rightarrow> ('f \<Rightarrow> string + 'a valor) \<Rightarrow> int \<Rightarrow> ('f, 'a) SistemaParalelizacion
     \<Rightarrow> ('f, 'a) SistemaParalelizacion" where
  "procesar_siguiente lib ejecutar ahora s =
     (case obtener_tarea ahora (queue_inteligente s) of
        (Some tarea, q) \<Rightarrow> procesar_tarea_en_worker lib ejecutar ahora tarea (s\<lparr>queue_inteligente := q\<rparr>)
      | (None, q) \<Rightarrow> s\<lparr>queue_inteligente := q\<rparr>)"

section \<open>A concrete library for evaluation\<close>

text \<open>
  A small stand-in for \<open>pickle\<close> and \<open>gzip\<close> over objects that are natural numbers:
  the object \<open>n\<close> pickles to \<open>n + 1\<close> bytes \<open>7\<close>, \<open>None\<close> to the byte \<open>0\<close> and a bytes
  object to itself after the byte \<open>1\<close>; the compressor stores a run of at most 255
  equal bytes in three bytes and anything else after the byte \<open>0\<close>. Loading undoes
  pickling and decompressing undoes compressing.
\<close>

definition dumps_demo :: "nat valor \<Rightarrow> bytes option" where
  "dumps_demo v =
     Some (case v of PyNone \<Rightarrow> [0] | PyBytes b \<Rightarrow> 1 # b | PyObj n \<Rightarrow> replicate (Suc n) 7)"

definition loads_demo :: "bytes \<Rightarrow> nat valor option" where
  "loads_demo bs =
     (if bs = [] then None
      else if hd bs = 0 \<and> length bs = 1 then Some PyNone
      else if hd bs = 1 then Some (PyBytes (tl bs))
      else if filter (\<lambda>b. b \<noteq> 7) bs = [] then Some (PyObj (length bs - 1))
      else None)"

definition compress_demo :: "nat \<Rightarrow> bytes \<Rightarrow> bytes" where
  "compress_demo nivel d =
     (if d \<noteq> [] \<and> length d < 256 \<and> filter (\<lambda>b. b \<noteq> hd d) d = []
      then [1, of_nat (length d), hd d]
      else 0 # d)"

definition decompress_demo :: "bytes \<Rightarrow> bytes option" where
  "decompress_demo c =
     (if c = [] then None
      else if hd c = 0 then Some (tl c)
      else if hd c = 1 \<and> length c = 3 then Some (replicate (unat (c ! 1)) (c ! 2))
      else None)"

definition lib_demo :: "nat biblioteca" where
  "lib_demo =
     \<lparr>pickle_dumps = dumps_demo, pickle_loads = loads_demo,
      gzip_compress = compress_demo, gzip_decompress = decompress_demo,
      sha256_hexdigest = (\<lambda>d. ''sha256'')\<rparr>"

section \<open>Concrete inputs\<close>

text \<open>A task with the given id, priority and creation time, as \<open>submit_tarea\<close> builds it.\<close>

definition tarea_demo :: "string \<Rightarrow> PrioridadTarea \<Rightarrow> int \<Rightarrow> (nat, nat) TareaParalelizacion" where
  "tarea_demo i p t =
     \<lparr>id_tarea = i, funcion = 0, prioridad = p, tipo_worker = GENERAL, timeout = 300,
      retries = 3, dependencias = [], metadata = [], timestamp_creacion = t,
      timestamp_inicio = None, timestamp_finalizacion = None, estado = PENDIENTE,
      resultado = PyNone, error = None\<rparr>"

text \<open>Metadata of an entry with the given key, size and time, as \<open>put\<close> builds them.\<close>

definition metadata_demo :: "string \<Rightarrow> int \<Rightarrow> int \<Rightarrow> MetadataCache" where
  "metadata_demo k n t =
     \<lparr>clave = k, tamano_bytes = n, tipo_dato = JSON, timestamp_creacion = t,
      timestamp_acceso = t, frecuencia_acceso = 1, nivel_cache = L1_MEMORIA,
      comprimido = False, checksum = ''sha256'', tiempo_computacion = 0, prioridad = 5\<rparr>"

text \<open>
  A memory tier of 25 bytes that is full with two entries of 10 bytes: \<open>a\<close>, touched
  first, and \<open>b\<close>.
\<close>

definition l1_lleno :: "nat CacheL1Memoria" where
  "l1_lleno =
     \<lparr>CacheL1Memoria.capacidad_bytes = 25,
      datos = [(''a'', PyObj 1, metadata_demo ''a'' 10 1), (''b'', PyObj 2, metadata_demo ''b'' 10 2)],
      tamano_actual = 20\<rparr>"

text \<open>
  An empty cache with a memory tier of 100 bytes, a disk tier of 1000 bytes and
  compression on.
\<close>

definition cache_demo :: "nat CacheMultinivel" where
  "cache_demo =
     \<lparr>cache_l1 = \<lparr>CacheL1Memoria.capacidad_bytes = 100, datos = [], tamano_actual = 0\<rparr>,
      cache_l2 = \<lparr>CacheL2Disco.capacidad_bytes = 1000, archivos = [], metadatos = []\<rparr>,
      habilitar_compresion = True, auto_limpieza = True,
      estadisticas = EstadisticasCache_nuevas\<rparr>"

text \<open>
  The metadata and the cache after \<open>put\<close> of the object 50 under \<open>k\<close> at time 1 (51
  pickled bytes, compressed to 3, stored in the disk tier) and one \<open>get\<close> at time 2.
\<close>

definition metadata_k :: MetadataCache where
  "metadata_k =
     \<lparr>clave = ''k'', tamano_bytes = 3, tipo_dato = JSON, timestamp_creacion = 1,
      timestamp_acceso = 2, frecuencia_acceso = 2, nivel_cache = L2_DISCO,
      comprimido = True, checksum = ''sha256'', tiempo_computacion = 0, prioridad = 5\<rparr>"

definition cache_demo_k :: "nat CacheMultinivel" where
  "cache_demo_k =
     \<lparr>cache_l1 = \<lparr>CacheL1Memoria.capacidad_bytes = 100, datos = [], tamano_actual = 0\<rparr>,
      cache_l2 = \<lparr>CacheL2Disco.capacidad_bytes = 1000,
                  archivos = [(''k'', [1, 1, 51, 7])],
                  metadatos = [(''k'', metadata_k)]\<rparr>,
      habilitar_compresion = True, auto_limpieza = True,
      estadisticas = \<lparr>hits_l1 = 0, hits_l2 = 1, hits_l3 = 0, misses = 0, evictions = 0,
                        bytes_almacenados = 3\<rparr>\<rparr>"

text \<open>
  The scheduler as its constructor leaves it, over a given cache and with a given
  \<open>tamano_maximo_cola\<close>; the other settings are the defaults of the source.
\<close>

definition SistemaParalelizacion_init ::
  "'a CacheMultinivel \<Rightarrow> int \<Rightarrow> ('f, 'a) SistemaParalelizacion" where
  "SistemaParalelizacion_init c tamano_maximo_cola =
     \<lparr>cache = c, queue_inteligente = QueueInteligente_init tamano_maximo_cola,
      timeout_tarea = 300, max_retries = 3, tareas_totales = 0, tareas_pendientes = 0,
      tareas_completadas = 0, tareas_fallidas = 0, ejecuciones = []\<rparr>"

text \<open>A work function, named by a number \<open>n\<close>, that returns the object \<open>n\<close>.\<close>

definition ejecutar_demo :: "nat \<Rightarrow> string + nat valor" where
  "ejecutar_demo n = Inr (PyObj n)"

text \<open>
  The same call submitted twice: the work function 7, whose call text hashes to 42, is
  submitted at 1000 microseconds and processed at 2000 (\<open>sistema_tras_primera\<close>), then
  submitted again at 3000.
\<close>

definition sistema_tras_primera :: "(nat, nat) SistemaParalelizacion" where
  "sistema_tras_primera =
     procesar_siguiente lib_demo ejecutar_demo 2000
       (snd (submit_tarea lib_demo 1000 7 42 NORMAL GENERAL None None [] []
          (SistemaParalelizacion_init cache_demo 1000)))"

text \<open>
  The same with a queue of \<open>max_size\<close> 1: one task submitted at 1000 and completed at
  2000.
\<close>

definition sistema_cola_de_uno :: "(nat, nat) SistemaParalelizacion" where
  "sistema_cola_de_uno =
     procesar_siguiente lib_demo ejecutar_demo 2000
       (snd (submit_tarea lib_demo 1000 7 42 NORMAL GENERAL None None [] []
          (SistemaParalelizacion_init cache_demo 1)))"

text \<open>
  The scenario of the capacity tier: a memory tier of 5 MB, a disk tier of 10 MB, no
  compression; eleven objects of 1048576 pickled bytes each are put under the keys
  \<open>k0\<close> to \<open>k10\<close> at the times 1 to 11. Each is larger than a tenth of the memory
  tier and goes to the disk tier.
\<close>

definition once_puts :: "nat CacheMultinivel" where
  "once_puts =
     (snd (CacheMultinivel_put lib_demo 11 ''k10'' (PyObj 1048575) BINARIO 0 5
       (snd (CacheMultinivel_put lib_demo 10 ''k9'' (PyObj 1048575) BINARIO 0 5
       (snd (CacheMultinivel_put lib_demo 9 ''k8'' (PyObj 1048575) BINARIO 0 5
       (snd (CacheMultinivel_put lib_demo 8 ''k7'' (PyObj 1048575) BINARIO 0 5
       (snd (CacheMultinivel_put lib_demo 7 ''k6'' (PyObj 1048575) BINARIO 0 5
       (snd (CacheMultinivel_put lib_demo 6 ''k5'' (PyObj 1048575) BINARIO 0 5
       (snd (CacheMultinivel_put lib_demo 5 ''k4'' (PyObj 1048575) BINARIO 0 5
       (snd (CacheMultinivel_put lib_demo 4 ''k3'' (PyObj 1048575) BINARIO 0 5
       (snd (CacheMultinivel_put lib_demo 3 ''k2'' (PyObj 1048575) BINARIO 0 5
       (snd (CacheMultinivel_put lib_demo 2 ''k1'' (PyObj 1048575) BINARIO 0 5
       (snd (CacheMultinivel_put lib_demo 1 ''k0'' (PyObj 1048575) BINARIO 0 5
       (CacheMultinivel_init 5 10 False False)))))))))))))))))))))))"

text \<open>A queue that holds one task, \<open>a\<close>, which has been taken by a worker: it is running.\<close>

definition cola_en_proceso :: "(nat, nat) QueueInteligente" where
  "cola_en_proceso =
     snd (obtener_tarea 2 (snd (agregar_tarea (tarea_demo ''a'' NORMAL 1) (QueueInteligente_init 0))))"

section \<open>Properties of the cache\<close>

subsection \<open>The bytes-stored statistic\<close>

lemma limpieza_bucle_bytes:
  "bytes_almacenados (estadisticas (limpieza_bucle n c)) = bytes_almacenados (estadisticas c)"
  by (induction n arbitrary: c) simp_all

lemma put_bytes:
  "bytes_almacenados (estadisticas (snd (CacheMultinivel_put lib ahora k v tipo t_c prio c))) =
     bytes_almacenados (estadisticas c) +
       (case pickle_dumps lib v of
          None \<Rightarrow> 0
        | Some d \<Rightarrow>
            if 10 * int (length d) \<le> CacheL1Memoria.capacidad_bytes (cache_l1 c) then int (length d)
            else if habilitar_compresion c then int (length (fst (comprimir lib d tipo)))
            else int (length d))"
  by (simp add: CacheMultinivel_put_def Let_def split: option.split)

lemma get_bytes:
  "bytes_almacenados (estadisticas (snd (CacheMultinivel_get lib ahora k c))) =
     bytes_almacenados (estadisticas c)"
  by (simp add: CacheMultinivel_get_def Let_def split: option.split prod.split valor.split)

text \<open>
  C10. \<open>bytes_almacenados\<close> never decreases. A \<open>put\<close> adds the size it stores (the
  pickled size in the memory tier, the compressed or pickled size in the disk tier,
  nothing when pickling raises), whatever the cache already holds under the key: an
  overwrite subtracts nothing. \<open>get\<close> (promotion and the evictions it causes included),
  the automatic cleanup and a round of the monitor leave it as it is; the evictions of
  the tiers (\<open>CacheL1Memoria_evict_lru\<close>, \<open>limpiar_espacio\<close>) work on the tier alone and
  cannot reach the statistics. Only \<open>limpiar_todo\<close> sets it back to zero. It is the
  total of the bytes ever stored, not the bytes resident.
\<close>

theorem bytes_almacenados_acumulativo:
  "bytes_almacenados (estadisticas c)
     \<le> bytes_almacenados (estadisticas (snd (CacheMultinivel_put lib ahora k v tipo t_c prio c)))
   \<and> bytes_almacenados (estadisticas (snd (CacheMultinivel_put lib ahora k v tipo t_c prio c))) =
       bytes_almacenados (estadisticas c) +
         (case pickle_dumps lib v of
            None \<Rightarrow> 0
          | Some d \<Rightarrow>
              if 10 * int (length d) \<le> CacheL1Memoria.capacidad_bytes (cache_l1 c) then int (length d)
              else if habilitar_compresion c then int (length (fst (comprimir lib d tipo)))
              else int (length d))
   \<and> bytes_almacenados (estadisticas (snd (CacheMultinivel_get lib ahora k c))) =
       bytes_almacenados (estadisticas c)
   \<and> bytes_almacenados (estadisticas (limpieza_automatica c)) = bytes_almacenados (estadisticas c)
   \<and> bytes_almacenados (estadisticas (monitor_continuo uso c)) = bytes_almacenados (estadisticas c)
   \<and> bytes_almacenados (estadisticas (limpiar_todo c)) = 0"
proof -
  have "bytes_almacenados (estadisticas c)
     \<le> bytes_almacenados (estadisticas (snd (CacheMultinivel_put lib ahora k v tipo t_c prio c)))"
    unfolding put_bytes by (simp split: option.split)
  moreover have "bytes_almacenados (estadisticas (limpieza_automatica c)) =
      bytes_almacenados (estadisticas c)"
    by (simp add: limpieza_automatica_def limpieza_bucle_bytes)
  moreover have "bytes_almacenados (estadisticas (monitor_continuo uso c)) =
      bytes_almacenados (estadisticas c)"
    by (simp add: monitor_continuo_def limpieza_automatica_def limpieza_bucle_bytes)
  moreover have "bytes_almacenados (estadisticas (limpiar_todo c)) = 0"
    by (simp add: limpiar_todo_def EstadisticasCache_nuevas_def)
  ultimately show ?thesis
    using put_bytes [of lib ahora k v tipo t_c prio c] get_bytes [of lib ahora k c] by simp
qed

subsection \<open>The memory tier: least recently used first\<close>

text \<open>
  The loop of \<open>put\<close> removes a prefix of \<open>datos\<close>: the least number of oldest entries
  after which the new entry fits, or all of them.
\<close>

lemma CacheL1Memoria_put_evict_drop:
  fixes c :: "'a CacheL1Memoria"
  shows "\<exists>n\<le>length (datos c).
     CacheL1Memoria_put_evict t c =
       c\<lparr>datos := drop n (datos c),
         tamano_actual := tamano_actual c - (\<Sum>e\<leftarrow>take n (datos c). tamano_bytes (snd (snd e)))\<rparr>
     \<and> (tamano_actual c - (\<Sum>e\<leftarrow>take n (datos c). tamano_bytes (snd (snd e))) + t
          \<le> CacheL1Memoria.capacidad_bytes c \<or> n = length (datos c))
     \<and> (\<forall>m<n. tamano_actual c - (\<Sum>e\<leftarrow>take m (datos c). tamano_bytes (snd (snd e))) + t
          > CacheL1Memoria.capacidad_bytes c)"
proof (induction t c rule: CacheL1Memoria_put_evict.induct)
  case (1 t c)
  show ?case
  proof (cases "tamano_actual c + t > CacheL1Memoria.capacidad_bytes c \<and> length (datos c) > 0")
    case False
    then have "CacheL1Memoria_put_evict t c = c"
      by (subst CacheL1Memoria_put_evict.simps) auto
    with False show ?thesis
      by (intro exI [of _ 0]) auto
  next
    case True
    then obtain e es where es: "datos c = e # es"
      by (cases "datos c") auto
    define c' where "c' = snd (CacheL1Memoria_evict_lru c)"
    have c': "c' = c\<lparr>datos := es, tamano_actual := tamano_actual c - tamano_bytes (snd (snd e))\<rparr>"
      by (cases e) (simp add: c'_def CacheL1Memoria_evict_lru_def es)
    from "1.IH" [OF True] obtain n where n: "n \<le> length (datos c')"
      "CacheL1Memoria_put_evict t c' =
         c'\<lparr>datos := drop n (datos c'),
            tamano_actual := tamano_actual c' - (\<Sum>e\<leftarrow>take n (datos c'). tamano_bytes (snd (snd e)))\<rparr>"
      "tamano_actual c' - (\<Sum>e\<leftarrow>take n (datos c'). tamano_bytes (snd (snd e))) + t
          \<le> CacheL1Memoria.capacidad_bytes c' \<or> n = length (datos c')"
      "\<forall>m<n. tamano_actual c' - (\<Sum>e\<leftarrow>take m (datos c'). tamano_bytes (snd (snd e))) + t
          > CacheL1Memoria.capacidad_bytes c'"
      unfolding c'_def by blast
    have step: "CacheL1Memoria_put_evict t c = CacheL1Memoria_put_evict t c'"
      using True by (subst CacheL1Memoria_put_evict.simps) (simp add: c'_def)
    have least: "tamano_actual c - (\<Sum>e\<leftarrow>take m (datos c). tamano_bytes (snd (snd e))) + t
          > CacheL1Memoria.capacidad_bytes c" if "m < Suc n" for m
    proof (cases m)
      case 0
      with True show ?thesis by simp
    next
      case (Suc m')
      with that n(4) show ?thesis by (simp add: c' es algebra_simps)
    qed
    show ?thesis
      apply (intro exI [of _ "Suc n"] conjI)
      using n(1) apply (simp add: c' es)
      using n(2) apply (simp add: step c' es algebra_simps)
      using n(3) apply (simp add: c' es algebra_simps)
      using least apply blast
      done
  qed
qed

lemma map_fst_delete: "map fst (AList.delete k xs) = filter (\<lambda>x. x \<noteq> k) (map fst xs)"
  by (induction xs) auto

lemma CacheL1Memoria_put_lleno:
  fixes c :: "'a CacheL1Memoria"
  assumes "\<forall>e\<in>set (datos c). tamano_bytes (snd (snd e)) = s"
    and "tamano_actual c = int (length (datos c)) * s"
    and "datos c \<noteq> []"
    and "int (length (datos c)) * s \<le> CacheL1Memoria.capacidad_bytes c"
    and "CacheL1Memoria.capacidad_bytes c < (int (length (datos c)) + 1) * s"
    and "tamano_bytes md = s"
    and "map_of (datos c) k = None"
  shows "datos (CacheL1Memoria_put k v md c) = tl (datos c) @ [(k, v, md)]
       \<and> tamano_actual (CacheL1Memoria_put k v md c) = int (length (datos c)) * s"
proof -
  from assms(3) obtain e es where es: "datos c = e # es"
    by (cases "datos c") auto
  with assms(1) have e: "tamano_bytes (snd (snd e)) = s" by simp
  define c' where "c' = c\<lparr>datos := es, tamano_actual := tamano_actual c - s\<rparr>"
  have ev: "snd (CacheL1Memoria_evict_lru c) = c'"
    using e by (cases e) (simp add: c'_def CacheL1Memoria_evict_lru_def es)
  have "CacheL1Memoria_put_evict s c = CacheL1Memoria_put_evict s c'"
    using assms(2,5) es by (subst CacheL1Memoria_put_evict.simps) (simp add: ev algebra_simps)
  also have "\<dots> = c'"
    using assms(2,4) es by (subst CacheL1Memoria_put_evict.simps) (simp add: c'_def algebra_simps)
  finally show ?thesis
    using assms(2,6,7) es by (simp add: CacheL1Memoria_put_def c'_def algebra_simps)
qed

lemma CacheL1Memoria_get_orden:
  fixes c :: "'a CacheL1Memoria"
  shows "map fst (datos (snd (CacheL1Memoria_get ahora k c))) =
      (if k \<in> set (map fst (datos c)) then filter (\<lambda>x. x \<noteq> k) (map fst (datos c)) @ [k]
       else map fst (datos c))"
proof (cases "map_of (datos c) k")
  case None
  then have "k \<notin> set (map fst (datos c))" by (simp add: map_of_eq_None_iff)
  then show ?thesis unfolding CacheL1Memoria_get_def None by simp
next
  case (Some a)
  then have "k \<in> set (map fst (datos c))" by (metis map_of_eq_None_iff option.distinct(1) set_map)
  then show ?thesis
    unfolding CacheL1Memoria_get_def Some by (simp add: Let_def map_fst_delete split: prod.split)
qed

lemma delete_ausente: "map_of xs k = None \<Longrightarrow> AList.delete k xs = xs"
  by (induction xs) (auto split: if_splits)

lemma CacheL1Memoria_put_prefijo:
  fixes c :: "'a CacheL1Memoria"
  shows "\<exists>n\<le>length (AList.delete k (datos c)).
           datos (CacheL1Memoria_put k v md c) = drop n (AList.delete k (datos c)) @ [(k, v, md)]
         \<and> (tamano_actual c
               - (case map_of (datos c) k of Some (v0, m0) \<Rightarrow> tamano_bytes m0 | None \<Rightarrow> 0)
               - (\<Sum>e\<leftarrow>take n (AList.delete k (datos c)). tamano_bytes (snd (snd e)))
               + tamano_bytes md \<le> CacheL1Memoria.capacidad_bytes c
             \<or> n = length (AList.delete k (datos c)))
         \<and> (\<forall>m<n. CacheL1Memoria.capacidad_bytes c
               < tamano_actual c
                 - (case map_of (datos c) k of Some (v0, m0) \<Rightarrow> tamano_bytes m0 | None \<Rightarrow> 0)
                 - (\<Sum>e\<leftarrow>take m (AList.delete k (datos c)). tamano_bytes (snd (snd e)))
                 + tamano_bytes md)"
proof -
  define c1 where "c1 = (case map_of (datos c) k of
                  Some (v_ant, metadata_ant) \<Rightarrow>
                    c\<lparr>datos := AList.delete k (datos c),
                      tamano_actual := tamano_actual c - tamano_bytes metadata_ant\<rparr>
                | None \<Rightarrow> c)"
  have d1: "datos c1 = AList.delete k (datos c)"
    by (simp add: c1_def delete_ausente split: option.split)
  have t1: "tamano_actual c1 = tamano_actual c
               - (case map_of (datos c) k of Some (v0, m0) \<Rightarrow> tamano_bytes m0 | None \<Rightarrow> 0)"
    by (simp add: c1_def split: option.split)
  have cap1: "CacheL1Memoria.capacidad_bytes c1 = CacheL1Memoria.capacidad_bytes c"
    by (simp add: c1_def split: option.split)
  from CacheL1Memoria_put_evict_drop [of c1 "tamano_bytes md"] obtain n where
    n: "n \<le> length (datos c1)"
      "CacheL1Memoria_put_evict (tamano_bytes md) c1 =
         c1\<lparr>datos := drop n (datos c1),
           tamano_actual := tamano_actual c1 - (\<Sum>e\<leftarrow>take n (datos c1). tamano_bytes (snd (snd e)))\<rparr>"
      "tamano_actual c1 - (\<Sum>e\<leftarrow>take n (datos c1). tamano_bytes (snd (snd e))) + tamano_bytes md
          \<le> CacheL1Memoria.capacidad_bytes c1 \<or> n = length (datos c1)"
      "\<forall>m<n. tamano_actual c1 - (\<Sum>e\<leftarrow>take m (datos c1). tamano_bytes (snd (snd e))) + tamano_bytes md
          > CacheL1Memoria.capacidad_bytes c1"
    by blast
  have "datos (CacheL1Memoria_put k v md c) = drop n (datos c1) @ [(k, v, md)]"
    by (simp add: CacheL1Memoria_put_def Let_def c1_def [symmetric] n(2))
  with n(1,3,4) show ?thesis
    unfolding d1 t1 cap1 by blast
qed

text \<open>
  C8. A memory tier holds \<open>N \<ge> 1\<close> entries of \<open>s\<close> bytes each, its counter is \<open>N * s\<close>
  and its capacity has room for exactly \<open>N\<close> of them. Putting a new key with \<open>s\<close>
  bytes evicts exactly the head of \<open>datos\<close> and nothing else. The head is the least
  recently touched key: a \<open>get\<close> that hits moves its key to the end and leaves the
  order of the others, a \<open>get\<close> that misses changes nothing, and a \<open>put\<close> places its
  key at the end. For any tier and any key, a \<open>put\<close> first takes the older entry of
  the key, if there is one, out of \<open>datos\<close> and out of the counter, and then removes
  the first \<open>n\<close> of the remaining entries, oldest first, where \<open>n\<close> is the least
  number of evictions after which the new entry fits, or all the entries when it never
  fits; the new entry goes to the end.
\<close>

theorem CacheL1Memoria_put_lru:
  fixes c :: "'a CacheL1Memoria"
  shows
    "(map (\<lambda>e. tamano_bytes (snd (snd e))) (datos c) = replicate (length (datos c)) s
        \<and> tamano_actual c = int (length (datos c)) * s
        \<and> datos c \<noteq> []
        \<and> int (length (datos c)) * s \<le> CacheL1Memoria.capacidad_bytes c
        \<and> CacheL1Memoria.capacidad_bytes c < (int (length (datos c)) + 1) * s
        \<and> tamano_bytes md = s
        \<and> map_of (datos c) k = None
      \<longrightarrow> datos (CacheL1Memoria_put k v md c) = tl (datos c) @ [(k, v, md)]
          \<and> map fst (datos (CacheL1Memoria_put k v md c)) = tl (map fst (datos c)) @ [k]
          \<and> tamano_actual (CacheL1Memoria_put k v md c) = int (length (datos c)) * s)
     \<and> (\<exists>n\<le>length (AList.delete k (datos c)).
           datos (CacheL1Memoria_put k v md c) = drop n (AList.delete k (datos c)) @ [(k, v, md)]
         \<and> (tamano_actual c
               - (case map_of (datos c) k of Some (v0, m0) \<Rightarrow> tamano_bytes m0 | None \<Rightarrow> 0)
               - (\<Sum>e\<leftarrow>take n (AList.delete k (datos c)). tamano_bytes (snd (snd e)))
               + tamano_bytes md \<le> CacheL1Memoria.capacidad_bytes c
             \<or> n = length (AList.delete k (datos c)))
         \<and> (\<forall>m<n. CacheL1Memoria.capacidad_bytes c
               < tamano_actual c
                 - (case map_of (datos c) k of Some (v0, m0) \<Rightarrow> tamano_bytes m0 | None \<Rightarrow> 0)
                 - (\<Sum>e\<leftarrow>take m (AList.delete k (datos c)). tamano_bytes (snd (snd e)))
                 + tamano_bytes md))
     \<and> map fst (datos (snd (CacheL1Memoria_get ahora k' c))) =
         (if k' \<in> set (map fst (datos c))
          then filter (\<lambda>x. x \<noteq> k') (map fst (datos c)) @ [k']
          else map fst (datos c))"
proof (intro conjI impI)
  assume h: "map (\<lambda>e. tamano_bytes (snd (snd e))) (datos c) = replicate (length (datos c)) s
        \<and> tamano_actual c = int (length (datos c)) * s
        \<and> datos c \<noteq> []
        \<and> int (length (datos c)) * s \<le> CacheL1Memoria.capacidad_bytes c
        \<and> CacheL1Memoria.capacidad_bytes c < (int (length (datos c)) + 1) * s
        \<and> tamano_bytes md = s
        \<and> map_of (datos c) k = None"
  have "tamano_bytes (snd (snd e)) = s" if "e \<in> set (datos c)" for e
  proof -
    from that have "tamano_bytes (snd (snd e)) \<in> set (map (\<lambda>e. tamano_bytes (snd (snd e))) (datos c))"
      by (simp add: image_iff) blast
    with h show ?thesis by (simp split: if_splits)
  qed
  then have all: "\<forall>e\<in>set (datos c). tamano_bytes (snd (snd e)) = s" by blast
  from CacheL1Memoria_put_lleno [OF all, of md k v] h
  show "datos (CacheL1Memoria_put k v md c) = tl (datos c) @ [(k, v, md)]"
    and "tamano_actual (CacheL1Memoria_put k v md c) = int (length (datos c)) * s"
    by simp_all
  then show "map fst (datos (CacheL1Memoria_put k v md c)) = tl (map fst (datos c)) @ [k]"
    by (simp add: map_tl)
next
  show "\<exists>n\<le>length (AList.delete k (datos c)).
           datos (CacheL1Memoria_put k v md c) = drop n (AList.delete k (datos c)) @ [(k, v, md)]
         \<and> (tamano_actual c
               - (case map_of (datos c) k of Some (v0, m0) \<Rightarrow> tamano_bytes m0 | None \<Rightarrow> 0)
               - (\<Sum>e\<leftarrow>take n (AList.delete k (datos c)). tamano_bytes (snd (snd e)))
               + tamano_bytes md \<le> CacheL1Memoria.capacidad_bytes c
             \<or> n = length (AList.delete k (datos c)))
         \<and> (\<forall>m<n. CacheL1Memoria.capacidad_bytes c
               < tamano_actual c
                 - (case map_of (datos c) k of Some (v0, m0) \<Rightarrow> tamano_bytes m0 | None \<Rightarrow> 0)
                 - (\<Sum>e\<leftarrow>take m (AList.delete k (datos c)). tamano_bytes (snd (snd e)))
                 + tamano_bytes md)"
    by (rule CacheL1Memoria_put_prefijo)
next
  show "map fst (datos (snd (CacheL1Memoria_get ahora k' c))) =
         (if k' \<in> set (map fst (datos c))
          then filter (\<lambda>x. x \<noteq> k') (map fst (datos c)) @ [k']
          else map fst (datos c))"
    by (rule CacheL1Memoria_get_orden)
qed

text \<open>The theorem at the full tier \<open>l1_lleno\<close>: putting \<open>c\<close> evicts \<open>a\<close>.\<close>

theorem CacheL1Memoria_put_lru_witness:
  "map (\<lambda>e. tamano_bytes (snd (snd e))) (datos l1_lleno) = replicate (length (datos l1_lleno)) 10
   \<and> tamano_actual l1_lleno = int (length (datos l1_lleno)) * 10
   \<and> datos l1_lleno \<noteq> []
   \<and> int (length (datos l1_lleno)) * 10 \<le> CacheL1Memoria.capacidad_bytes l1_lleno
   \<and> CacheL1Memoria.capacidad_bytes l1_lleno < (int (length (datos l1_lleno)) + 1) * 10
   \<and> tamano_bytes (metadata_demo ''c'' 10 3) = 10
   \<and> map_of (datos l1_lleno) ''c'' = None
   \<and> map fst (datos (CacheL1Memoria_put ''c'' (PyObj 3) (metadata_demo ''c'' 10 3) l1_lleno))
       = [''b'', ''c'']
   \<and> tamano_actual (CacheL1Memoria_put ''c'' (PyObj 3) (metadata_demo ''c'' 10 3) l1_lleno) = 20
   \<and> map fst (datos (snd (CacheL1Memoria_get 4 ''a'' l1_lleno))) = [''b'', ''a'']"
proof -
  have h: "map (\<lambda>e. tamano_bytes (snd (snd e))) (datos l1_lleno) = replicate (length (datos l1_lleno)) 10
   \<and> tamano_actual l1_lleno = int (length (datos l1_lleno)) * 10
   \<and> datos l1_lleno \<noteq> []
   \<and> int (length (datos l1_lleno)) * 10 \<le> CacheL1Memoria.capacidad_bytes l1_lleno
   \<and> CacheL1Memoria.capacidad_bytes l1_lleno < (int (length (datos l1_lleno)) + 1) * 10
   \<and> tamano_bytes (metadata_demo ''c'' 10 3) = 10
   \<and> map_of (datos l1_lleno) ''c'' = None"
    by (simp add: l1_lleno_def metadata_demo_def numeral_2_eq_2)
  from CacheL1Memoria_put_lru [of l1_lleno 10 "metadata_demo ''c'' 10 3" "''c''" "PyObj 3" 4 "''a''"] h
  have "map fst (datos (CacheL1Memoria_put ''c'' (PyObj 3) (metadata_demo ''c'' 10 3) l1_lleno))
          = tl (map fst (datos l1_lleno)) @ [''c'']"
    and "tamano_actual (CacheL1Memoria_put ''c'' (PyObj 3) (metadata_demo ''c'' 10 3) l1_lleno)
          = int (length (datos l1_lleno)) * 10"
    and "map fst (datos (snd (CacheL1Memoria_get 4 ''a'' l1_lleno))) =
         (if ''a'' \<in> set (map fst (datos l1_lleno))
          then filter (\<lambda>x. x \<noteq> ''a'') (map fst (datos l1_lleno)) @ [''a'']
          else map fst (datos l1_lleno))"
    by blast+
  with h show ?thesis
    by (simp add: l1_lleno_def)
qed

subsection \<open>Lookups: a hit in the memory tier, and promotion from the disk tier\<close>

lemma CacheL1Memoria_put_map_of:
  fixes c :: "'a CacheL1Memoria"
  shows "map_of (datos (CacheL1Memoria_put k v md c)) k = Some (v, md)"
proof -
  define c1 where "c1 = (case map_of (datos c) k of
                  Some (v_ant, metadata_ant) \<Rightarrow>
                    c\<lparr>datos := AList.delete k (datos c),
                      tamano_actual := tamano_actual c - tamano_bytes metadata_ant\<rparr>
                | None \<Rightarrow> c)"
  have c1: "map_of (datos c1) k = None"
    by (auto simp: c1_def delete_notin_dom map_of_eq_None_iff split: option.split)
  from CacheL1Memoria_put_evict_drop [of c1 "tamano_bytes md"] obtain n where
    "CacheL1Memoria_put_evict (tamano_bytes md) c1 =
       c1\<lparr>datos := drop n (datos c1),
          tamano_actual := tamano_actual c1 - (\<Sum>e\<leftarrow>take n (datos c1). tamano_bytes (snd (snd e)))\<rparr>"
    by blast
  then have n: "datos (CacheL1Memoria_put_evict (tamano_bytes md) c1) = drop n (datos c1)"
    by simp
  have "set (drop n (datos c1)) \<subseteq> set (datos c1)" by (rule set_drop_subset)
  with c1 have "map_of (drop n (datos c1)) k = None"
    by (auto simp: map_of_eq_None_iff)
  then show ?thesis
    by (simp add: CacheL1Memoria_put_def Let_def c1_def [symmetric] n map_add_def)
qed

lemma CacheL1Memoria_get_hit:
  fixes c :: "'a CacheL1Memoria"
  assumes "map_of (datos c) k = Some (v, m)"
  shows "CacheL1Memoria_get ahora k c =
     (Some (v, m\<lparr>timestamp_acceso := ahora, frecuencia_acceso := frecuencia_acceso m + 1\<rparr>),
      c\<lparr>datos := AList.delete k (datos c) @
           [(k, v, m\<lparr>timestamp_acceso := ahora, frecuencia_acceso := frecuencia_acceso m + 1\<rparr>)]\<rparr>)"
  by (simp add: CacheL1Memoria_get_def assms Let_def)

lemma CacheL1Memoria_get_hit_again:
  fixes c :: "'a CacheL1Memoria"
  assumes "map_of (datos c) k = Some (v, m)"
  shows "map_of (datos (snd (CacheL1Memoria_get ahora k c))) k =
     Some (v, m\<lparr>timestamp_acceso := ahora, frecuencia_acceso := frecuencia_acceso m + 1\<rparr>)"
proof -
  have "map_of (AList.delete k (datos c)) k = None"
    by (simp add: delete_notin_dom map_of_eq_None_iff)
  then show ?thesis
    by (simp add: CacheL1Memoria_get_hit [OF assms] map_add_def)
qed

lemma CacheMultinivel_get_l1:
  assumes "map_of (datos (cache_l1 c)) k = Some (v, m)"
  shows "CacheMultinivel_get lib ahora k c =
     (v, c\<lparr>cache_l1 := snd (CacheL1Memoria_get ahora k (cache_l1 c)),
           estadisticas := (estadisticas c)\<lparr>hits_l1 := hits_l1 (estadisticas c) + 1\<rparr>\<rparr>)"
  by (simp add: CacheMultinivel_get_def CacheL1Memoria_get_hit [OF assms])

lemma CacheMultinivel_get_promueve:
  assumes l1: "map_of (datos (cache_l1 c)) k = None"
    and meta: "map_of (metadatos (cache_l2 c)) k = Some m"
    and arch: "map_of (archivos (cache_l2 c)) k = Some contenido"
    and carga: "pickle_loads lib contenido = Some v"
    and desc: "(case v of
                  PyBytes b \<Rightarrow> if comprimido m then pickle_loads lib (descomprimir lib b) else Some v
                | _ \<Rightarrow> Some v) = Some v'"
    and tam: "20 * tamano_bytes m \<le> CacheL1Memoria.capacidad_bytes (cache_l1 c)"
    and frec: "frecuencia_acceso m + 1 \<ge> 3"
  shows "CacheMultinivel_get lib ahora k c =
     (v',
      c\<lparr>cache_l1 := CacheL1Memoria_put k v'
           (m\<lparr>timestamp_acceso := ahora, frecuencia_acceso := frecuencia_acceso m + 1\<rparr>) (cache_l1 c),
        cache_l2 := (cache_l2 c)\<lparr>metadatos := AList.update k
           (m\<lparr>timestamp_acceso := ahora, frecuencia_acceso := frecuencia_acceso m + 1\<rparr>)
           (metadatos (cache_l2 c))\<rparr>,
        estadisticas := (estadisticas c)\<lparr>hits_l2 := hits_l2 (estadisticas c) + 1\<rparr>\<rparr>)"
proof -
  have g1: "CacheL1Memoria_get ahora k (cache_l1 c) = (None, cache_l1 c)"
    by (simp add: CacheL1Memoria_get_def l1)
  have g2: "CacheL2Disco_get lib ahora k (cache_l2 c) =
     (Some (v, m\<lparr>timestamp_acceso := ahora, frecuencia_acceso := frecuencia_acceso m + 1\<rparr>),
      (cache_l2 c)\<lparr>metadatos := AList.update k
           (m\<lparr>timestamp_acceso := ahora, frecuencia_acceso := frecuencia_acceso m + 1\<rparr>)
           (metadatos (cache_l2 c))\<rparr>)"
    by (simp add: CacheL2Disco_get_def meta arch carga Let_def)
  have d: "(case v of
              PyBytes b \<Rightarrow>
                if comprimido (m\<lparr>timestamp_acceso := ahora, frecuencia_acceso := frecuencia_acceso m + 1\<rparr>)
                then pickle_loads lib (descomprimir lib b) else Some v
            | _ \<Rightarrow> Some v) = Some v'"
    using desc by (auto split: valor.splits)
  show ?thesis
    unfolding CacheMultinivel_get_def g1 g2
    using tam frec by (simp add: Let_def d)
qed

subsection \<open>Consistency of the memory tier\<close>

text \<open>
  \<open>get\<close>, \<open>put\<close> and \<open>_evict_lru\<close> keep the keys of the memory tier distinct and its
  counter equal to the sum of the sizes of its entries.
\<close>

lemma suma_delete:
  fixes xs :: "(string \<times> 'a valor \<times> MetadataCache) list"
  assumes "distinct (map fst xs)" and "map_of xs k = Some (v, m)"
  shows "(\<Sum>e\<leftarrow>AList.delete k xs. tamano_bytes (snd (snd e)))
           = (\<Sum>e\<leftarrow>xs. tamano_bytes (snd (snd e))) - tamano_bytes m"
  using assms
proof (induction xs)
  case Nil
  then show ?case by simp
next
  case (Cons x xs)
  show ?case
  proof (cases "fst x = k")
    case True
    with Cons.prems have "map_of xs k = None"
      by (auto simp: map_of_eq_None_iff)
    with True Cons.prems show ?thesis
      by (cases x) (simp add: delete_ausente)
  next
    case False
    with Cons show ?thesis by (cases x) auto
  qed
qed

lemma CacheL1Memoria_get_inv:
  fixes c :: "'a CacheL1Memoria"
  assumes "CacheL1Memoria_inv c"
  shows "CacheL1Memoria_inv (snd (CacheL1Memoria_get ahora k c))"
proof (cases "map_of (datos c) k")
  case None
  with assms show ?thesis by (simp add: CacheL1Memoria_get_def)
next
  case (Some a)
  obtain v m where a: "a = (v, m)" by (cases a)
  from assms have d: "distinct (map fst (datos c))"
    and t: "tamano_actual c = (\<Sum>e\<leftarrow>datos c. tamano_bytes (snd (snd e)))"
    by (simp_all add: CacheL1Memoria_inv_def)
  from Some a have hit: "map_of (datos c) k = Some (v, m)" by simp
  have "k \<notin> fst ` set (AList.delete k (datos c))" by (rule delete_notin_dom)
  with d suma_delete [OF d hit] t show ?thesis
    by (simp add: CacheL1Memoria_get_hit [OF hit] CacheL1Memoria_inv_def distinct_delete)
qed

lemma CacheL1Memoria_put_inv:
  fixes c :: "'a CacheL1Memoria"
  assumes "CacheL1Memoria_inv c"
  shows "CacheL1Memoria_inv (CacheL1Memoria_put k v md c)"
proof -
  from assms have d: "distinct (map fst (datos c))"
    and t: "tamano_actual c = (\<Sum>e\<leftarrow>datos c. tamano_bytes (snd (snd e)))"
    by (simp_all add: CacheL1Memoria_inv_def)
  define c1 where "c1 = (case map_of (datos c) k of
                  Some (v_ant, metadata_ant) \<Rightarrow>
                    c\<lparr>datos := AList.delete k (datos c),
                      tamano_actual := tamano_actual c - tamano_bytes metadata_ant\<rparr>
                | None \<Rightarrow> c)"
  have d1: "datos c1 = AList.delete k (datos c)"
    by (simp add: c1_def delete_ausente split: option.split)
  have t1: "tamano_actual c1 = (\<Sum>e\<leftarrow>datos c1. tamano_bytes (snd (snd e)))"
  proof (cases "map_of (datos c) k")
    case None
    with t show ?thesis by (simp add: c1_def)
  next
    case (Some a)
    obtain v0 m0 where a: "a = (v0, m0)" by (cases a)
    with Some suma_delete [OF d, of k v0 m0] t show ?thesis
      by (simp add: c1_def)
  qed
  from CacheL1Memoria_put_evict_drop [of c1 "tamano_bytes md"] obtain n where
    n: "CacheL1Memoria_put_evict (tamano_bytes md) c1 =
         c1\<lparr>datos := drop n (datos c1),
           tamano_actual := tamano_actual c1 - (\<Sum>e\<leftarrow>take n (datos c1). tamano_bytes (snd (snd e)))\<rparr>"
    by blast
  have partes: "(\<Sum>e\<leftarrow>datos c1. tamano_bytes (snd (snd e)))
      = (\<Sum>e\<leftarrow>take n (datos c1). tamano_bytes (snd (snd e)))
        + (\<Sum>e\<leftarrow>drop n (datos c1). tamano_bytes (snd (snd e)))"
    by (metis append_take_drop_id map_append sum_list_append)
  have dd: "distinct (map fst (drop n (datos c1)))"
    using d by (simp add: d1 distinct_delete distinct_drop flip: drop_map)
  have "k \<notin> fst ` set (datos c1)" unfolding d1 by (rule delete_notin_dom)
  with set_drop_subset [of n "datos c1"] have nk: "k \<notin> fst ` set (drop n (datos c1))"
    by blast
  have "CacheL1Memoria_put k v md c =
      c1\<lparr>datos := drop n (datos c1) @ [(k, v, md)],
         tamano_actual := tamano_actual c1
            - (\<Sum>e\<leftarrow>take n (datos c1). tamano_bytes (snd (snd e))) + tamano_bytes md\<rparr>"
    by (simp add: CacheL1Memoria_put_def Let_def c1_def [symmetric] n)
  with dd nk t1 partes show ?thesis
    by (simp add: CacheL1Memoria_inv_def)
qed

lemma CacheL1Memoria_evict_lru_inv:
  fixes c :: "'a CacheL1Memoria"
  assumes "CacheL1Memoria_inv c"
  shows "CacheL1Memoria_inv (snd (CacheL1Memoria_evict_lru c))"
  using assms
  by (auto simp: CacheL1Memoria_inv_def CacheL1Memoria_evict_lru_def split: list.splits)

subsection \<open>Evaluation on concrete caches\<close>

text \<open>The equations that evaluate the cache on a concrete state with the concrete library.\<close>

lemmas evaluar_cache = CacheMultinivel_put_def CacheMultinivel_get_def
  CacheL1Memoria_get_def CacheL1Memoria_put_def CacheL1Memoria_put_evict.simps
  CacheL1Memoria_evict_lru_def CacheL2Disco_get_def CacheL2Disco_put_def limpiar_espacio.simps
  calcular_tamano_actual_def eliminar_archivo_def comprimir_def descomprimir_def
  lib_demo_def dumps_demo_def loads_demo_def compress_demo_def decompress_demo_def
  EstadisticasCache_nuevas_def Let_def

text \<open>\<open>cache_demo_k\<close> is the cache reached from the empty one by a \<open>put\<close> and a \<open>get\<close>.\<close>

lemma cache_demo_k_alcanzable:
  "snd (CacheMultinivel_get lib_demo 2 ''k''
     (snd (CacheMultinivel_put lib_demo 1 ''k'' (PyObj 50) JSON 0 5 cache_demo))) = cache_demo_k"
  by (simp add: evaluar_cache cache_demo_def cache_demo_k_def metadata_k_def)

subsection \<open>Promotion\<close>




text \<open>
  C9. A key is resident in the disk tier: it has metadata and a file whose content
  unpickles and, when it is compressed bytes, decodes. Its recorded size is at most 5
  percent of the capacity of the memory tier and its access frequency, counted with
  this access, is at least 3. Then after a \<open>get\<close> of the key the memory tier holds it, and
  the next \<open>get\<close> is a hit of the memory tier: it returns the same value, counts one more
  \<open>hits_l1\<close>, no \<open>hits_l2\<close> and no miss, and does not touch the disk tier.
\<close>

theorem promocion_siguiente_get_en_l1:
  assumes meta: "map_of (metadatos (cache_l2 c)) k = Some m"
    and arch: "map_of (archivos (cache_l2 c)) k = Some contenido"
    and carga: "pickle_loads lib contenido = Some v"
    and desc: "(case v of
            PyBytes b \<Rightarrow> if comprimido m then pickle_loads lib (descomprimir lib b) else Some v
          | _ \<Rightarrow> Some v) = Some v'"
    and tam: "20 * tamano_bytes m \<le> CacheL1Memoria.capacidad_bytes (cache_l1 c)"
    and frec: "frecuencia_acceso m + 1 \<ge> 3"
  shows "map_of (datos (cache_l1 (snd (CacheMultinivel_get lib t1 k c)))) k \<noteq> None
       \<and> fst (CacheMultinivel_get lib t2 k (snd (CacheMultinivel_get lib t1 k c))) =
           fst (CacheMultinivel_get lib t1 k c)
       \<and> hits_l1 (estadisticas (snd (CacheMultinivel_get lib t2 k (snd (CacheMultinivel_get lib t1 k c))))) =
           hits_l1 (estadisticas (snd (CacheMultinivel_get lib t1 k c))) + 1
       \<and> hits_l2 (estadisticas (snd (CacheMultinivel_get lib t2 k (snd (CacheMultinivel_get lib t1 k c))))) =
           hits_l2 (estadisticas (snd (CacheMultinivel_get lib t1 k c)))
       \<and> misses (estadisticas (snd (CacheMultinivel_get lib t2 k (snd (CacheMultinivel_get lib t1 k c))))) =
           misses (estadisticas (snd (CacheMultinivel_get lib t1 k c)))
       \<and> cache_l2 (snd (CacheMultinivel_get lib t2 k (snd (CacheMultinivel_get lib t1 k c)))) =
           cache_l2 (snd (CacheMultinivel_get lib t1 k c))"
proof -
  define c' where "c' = snd (CacheMultinivel_get lib t1 k c)"
  have "\<exists>w mw. fst (CacheMultinivel_get lib t1 k c) = w \<and> map_of (datos (cache_l1 c')) k = Some (w, mw)"
  proof (cases "map_of (datos (cache_l1 c)) k")
    case None
    from CacheMultinivel_get_promueve [OF None meta arch carga desc tam frec, of t1]
    show ?thesis
      by (simp add: c'_def CacheL1Memoria_put_map_of)
  next
    case (Some a)
    obtain v0 m0 where a: "a = (v0, m0)" by (cases a)
    from Some a have hit: "map_of (datos (cache_l1 c)) k = Some (v0, m0)" by simp
    show ?thesis
      by (simp add: c'_def CacheMultinivel_get_l1 [OF hit] CacheL1Memoria_get_hit_again [OF hit])
  qed
  then obtain w mw where w: "fst (CacheMultinivel_get lib t1 k c) = w"
    and res: "map_of (datos (cache_l1 c')) k = Some (w, mw)"
    by blast
  from CacheMultinivel_get_l1 [OF res, of lib t2] w res
  show ?thesis
    unfolding c'_def [symmetric] by simp
qed

text \<open>The theorem at \<open>cache_demo_k\<close>, with the two lookups at times 3 and 4.\<close>

theorem promocion_siguiente_get_en_l1_witness:
  "map_of (metadatos (cache_l2 cache_demo_k)) ''k'' = Some metadata_k
   \<and> map_of (archivos (cache_l2 cache_demo_k)) ''k'' = Some [1, 1, 51, 7]
   \<and> pickle_loads lib_demo [1, 1, 51, 7] = Some (PyBytes [1, 51, 7])
   \<and> (case PyBytes [1, 51, 7] of
         PyBytes b \<Rightarrow> if comprimido metadata_k then pickle_loads lib_demo (descomprimir lib_demo b)
                      else Some (PyBytes [1, 51, 7])
       | _ \<Rightarrow> Some (PyBytes [1, 51, 7])) = Some (PyObj 50)
   \<and> 20 * tamano_bytes metadata_k \<le> CacheL1Memoria.capacidad_bytes (cache_l1 cache_demo_k)
   \<and> frecuencia_acceso metadata_k + 1 \<ge> 3
   \<and> map_of (datos (cache_l1 (snd (CacheMultinivel_get lib_demo 3 ''k'' cache_demo_k)))) ''k'' \<noteq> None
   \<and> fst (CacheMultinivel_get lib_demo 4 ''k'' (snd (CacheMultinivel_get lib_demo 3 ''k'' cache_demo_k))) =
       fst (CacheMultinivel_get lib_demo 3 ''k'' cache_demo_k)
   \<and> hits_l1 (estadisticas (snd (CacheMultinivel_get lib_demo 4 ''k''
         (snd (CacheMultinivel_get lib_demo 3 ''k'' cache_demo_k))))) =
       hits_l1 (estadisticas (snd (CacheMultinivel_get lib_demo 3 ''k'' cache_demo_k))) + 1"
proof -
  have h2: "map_of (metadatos (cache_l2 cache_demo_k)) ''k'' = Some metadata_k"
    and h3: "map_of (archivos (cache_l2 cache_demo_k)) ''k'' = Some [1, 1, 51, 7]"
    and h6: "20 * tamano_bytes metadata_k \<le> CacheL1Memoria.capacidad_bytes (cache_l1 cache_demo_k)"
    and h7: "frecuencia_acceso metadata_k + 1 \<ge> 3"
    by (simp_all add: cache_demo_k_def metadata_k_def)
  have h4: "pickle_loads lib_demo [1, 1, 51, 7] = Some (PyBytes [1, 51, 7])"
    by (simp add: lib_demo_def loads_demo_def)
  have h5: "(case PyBytes [1, 51, 7] of
         PyBytes b \<Rightarrow> if comprimido metadata_k then pickle_loads lib_demo (descomprimir lib_demo b)
                      else Some (PyBytes [1, 51, 7])
       | _ \<Rightarrow> Some (PyBytes [1, 51, 7])) = Some (PyObj 50)"
    by (simp add: lib_demo_def loads_demo_def descomprimir_def decompress_demo_def metadata_k_def)
  from promocion_siguiente_get_en_l1 [OF h2 h3 h4 h5 h6 h7, of 3 4] h2 h3 h4 h5 h6 h7
  show ?thesis by blast
qed

subsection \<open>Round trip\<close>

text \<open>
  With a library whose \<open>loads\<close> undoes \<open>dumps\<close>, that pickles every bytes object and
  whose \<open>decompress\<close> undoes \<open>compress\<close>, a \<open>get\<close> after a \<open>put\<close> returns the value put,
  on the three paths, as long as the value goes to the memory tier or the memory tier
  does not hold the key already. The concrete library satisfies these laws.
\<close>

lemma CacheMultinivel_get_l2_valor:
  assumes l1: "map_of (datos (cache_l1 c)) k = None"
    and meta: "map_of (metadatos (cache_l2 c)) k = Some m"
    and arch: "map_of (archivos (cache_l2 c)) k = Some contenido"
    and carga: "pickle_loads lib contenido = Some v"
    and desc: "(case v of
                  PyBytes b \<Rightarrow> if comprimido m then pickle_loads lib (descomprimir lib b) else Some v
                | _ \<Rightarrow> Some v) = Some v'"
  shows "fst (CacheMultinivel_get lib ahora k c) = v'"
proof -
  have g1: "CacheL1Memoria_get ahora k (cache_l1 c) = (None, cache_l1 c)"
    by (simp add: CacheL1Memoria_get_def l1)
  have g2: "CacheL2Disco_get lib ahora k (cache_l2 c) =
     (Some (v, m\<lparr>timestamp_acceso := ahora, frecuencia_acceso := frecuencia_acceso m + 1\<rparr>),
      (cache_l2 c)\<lparr>metadatos := AList.update k
           (m\<lparr>timestamp_acceso := ahora, frecuencia_acceso := frecuencia_acceso m + 1\<rparr>)
           (metadatos (cache_l2 c))\<rparr>)"
    by (simp add: CacheL2Disco_get_def meta arch carga Let_def)
  have d: "(case v of
              PyBytes b \<Rightarrow>
                if comprimido (m\<lparr>timestamp_acceso := ahora, frecuencia_acceso := frecuencia_acceso m + 1\<rparr>)
                then pickle_loads lib (descomprimir lib b) else Some v
            | _ \<Rightarrow> Some v) = Some v'"
    using desc by (auto split: valor.splits)
  show ?thesis
    unfolding CacheMultinivel_get_def g1 g2
    by (simp add: Let_def d)
qed

lemma CacheL2Disco_put_guarda:
  assumes "pickle_dumps lib v = Some contenido"
  shows "map_of (metadatos (CacheL2Disco_put lib k v md l2)) k = Some md
       \<and> map_of (archivos (CacheL2Disco_put lib k v md l2)) k = Some contenido"
  by (simp add: CacheL2Disco_put_def Let_def assms update_conv')

lemma CacheMultinivel_put_get:
  assumes ser: "pickle_dumps lib v = Some d"
    and ley_pickle: "\<And>x b. pickle_dumps lib x = Some b \<Longrightarrow> pickle_loads lib b = Some x"
    and ley_bytes: "\<And>b. pickle_dumps lib (PyBytes b) \<noteq> None"
    and ley_gzip: "\<And>n b. gzip_decompress lib (gzip_compress lib n b) = Some b"
    and libre: "10 * int (length d) \<le> CacheL1Memoria.capacidad_bytes (cache_l1 c)
                \<or> map_of (datos (cache_l1 c)) k = None"
  shows "fst (CacheMultinivel_put lib t1 k v tipo t_c prio c) = True
       \<and> fst (CacheMultinivel_get lib t2 k (snd (CacheMultinivel_put lib t1 k v tipo t_c prio c))) = v"
proof (cases "10 * int (length d) \<le> CacheL1Memoria.capacidad_bytes (cache_l1 c)")
  case True
  define md where "md = \<lparr>clave = k, tamano_bytes = int (length d), tipo_dato = tipo,
      timestamp_creacion = t1, timestamp_acceso = t1, frecuencia_acceso = 1,
      nivel_cache = L1_MEMORIA, comprimido = False, checksum = sha256_hexdigest lib d,
      tiempo_computacion = t_c, MetadataCache.prioridad = prio\<rparr>"
  have p: "CacheMultinivel_put lib t1 k v tipo t_c prio c =
      (True, c\<lparr>cache_l1 := CacheL1Memoria_put k v md (cache_l1 c),
               estadisticas := (estadisticas c)\<lparr>bytes_almacenados :=
                  bytes_almacenados (estadisticas c) + int (length d)\<rparr>\<rparr>)"
    using True by (simp add: CacheMultinivel_put_def ser Let_def md_def)
  have "map_of (datos (cache_l1 (snd (CacheMultinivel_put lib t1 k v tipo t_c prio c)))) k = Some (v, md)"
    by (simp add: p CacheL1Memoria_put_map_of)
  from CacheMultinivel_get_l1 [OF this, of lib t2] p show ?thesis by simp
next
  case False
  with libre have l1: "map_of (datos (cache_l1 c)) k = None" by simp
  define comp where "comp = gzip_compress lib (if tipo = TEXTO \<or> tipo = JSON then 6 else 3) d"
  define guardar where "guardar = (if habilitar_compresion c then PyBytes comp else v)"
  define md where "md = \<lparr>clave = k,
      tamano_bytes = (if habilitar_compresion c then int (length comp) else int (length d)),
      tipo_dato = tipo, timestamp_creacion = t1, timestamp_acceso = t1, frecuencia_acceso = 1,
      nivel_cache = L2_DISCO, comprimido = habilitar_compresion c,
      checksum = sha256_hexdigest lib d,
      tiempo_computacion = t_c, MetadataCache.prioridad = prio\<rparr>"
  have p: "CacheMultinivel_put lib t1 k v tipo t_c prio c =
      (True, c\<lparr>cache_l2 := CacheL2Disco_put lib k guardar md (cache_l2 c),
               estadisticas := (estadisticas c)\<lparr>bytes_almacenados :=
                  bytes_almacenados (estadisticas c) + tamano_bytes md\<rparr>\<rparr>)"
    using False
    by (simp add: CacheMultinivel_put_def ser Let_def md_def guardar_def comp_def comprimir_def)
  obtain contenido where cont: "pickle_dumps lib guardar = Some contenido"
    using ser ley_bytes [of comp] by (cases "habilitar_compresion c") (auto simp: guardar_def)
  from ley_pickle [OF cont] have carga: "pickle_loads lib contenido = Some guardar" .
  have desc: "(case guardar of
                 PyBytes b \<Rightarrow> if comprimido md then pickle_loads lib (descomprimir lib b) else Some guardar
               | _ \<Rightarrow> Some guardar) = Some v"
  proof (cases "habilitar_compresion c")
    case True
    then show ?thesis
      by (simp add: guardar_def md_def descomprimir_def comp_def ley_gzip ley_pickle [OF ser])
  next
    case False
    then show ?thesis
      by (simp add: guardar_def md_def split: valor.split)
  qed
  define c' where "c' = snd (CacheMultinivel_put lib t1 k v tipo t_c prio c)"
  have l1': "map_of (datos (cache_l1 c')) k = None"
    by (simp add: c'_def p l1)
  have meta: "map_of (metadatos (cache_l2 c')) k = Some md"
    and arch: "map_of (archivos (cache_l2 c')) k = Some contenido"
    using CacheL2Disco_put_guarda [OF cont, of k md "cache_l2 c"] by (simp_all add: c'_def p)
  from CacheMultinivel_get_l2_valor [OF l1' meta arch carga desc, of t2] p
  show ?thesis by (simp add: c'_def)
qed

lemma lib_demo_leyes:
  "(pickle_dumps lib_demo x = Some b \<longrightarrow> pickle_loads lib_demo b = Some x)
   \<and> pickle_dumps lib_demo (PyBytes b') \<noteq> None
   \<and> gzip_decompress lib_demo (gzip_compress lib_demo n d) = Some d"
proof (intro conjI impI)
  assume "pickle_dumps lib_demo x = Some b"
  then show "pickle_loads lib_demo b = Some x"
    by (cases x) (auto simp: lib_demo_def dumps_demo_def loads_demo_def)
next
  show "pickle_dumps lib_demo (PyBytes b') \<noteq> None"
    by (simp add: lib_demo_def dumps_demo_def)
next
  have rep: "filter (\<lambda>b. b \<noteq> a) xs = [] \<Longrightarrow> replicate (length xs) a = xs" for a :: "8 word" and xs
    by (induction xs) (auto split: if_splits)
  have "unat (word_of_nat (length d) :: 8 word) = length d" if "length d < 256"
    using that by (simp add: unat_of_nat)
  with rep [of "hd d" d] show "gzip_decompress lib_demo (gzip_compress lib_demo n d) = Some d"
    by (auto simp: lib_demo_def compress_demo_def decompress_demo_def)
qed

text \<open>
  C7. On the empty cache \<open>cache_demo\<close> (memory tier of 100 bytes), the object 3 is put
  under \<open>k\<close>: its 4 pickled bytes go to the memory tier. Then the object 50 is put under
  the same key: its 51 pickled bytes exceed a tenth of the memory tier and go to the disk
  tier, and the entry of the memory tier stays. Both calls return \<open>True\<close>. The \<open>get\<close>
  that follows hits the memory tier and returns the object 3, not the object 50 that was
  just put.
\<close>

theorem put_en_disco_no_invalida_memoria:
  "fst (CacheMultinivel_put lib_demo 1 ''k'' (PyObj 3) JSON 0 5 cache_demo) = True
   \<and> fst (CacheMultinivel_put lib_demo 2 ''k'' (PyObj 50) JSON 0 5
        (snd (CacheMultinivel_put lib_demo 1 ''k'' (PyObj 3) JSON 0 5 cache_demo))) = True
   \<and> fst (CacheMultinivel_get lib_demo 3 ''k''
        (snd (CacheMultinivel_put lib_demo 2 ''k'' (PyObj 50) JSON 0 5
          (snd (CacheMultinivel_put lib_demo 1 ''k'' (PyObj 3) JSON 0 5 cache_demo))))) = PyObj 3"
  by (simp add: evaluar_cache cache_demo_def)

subsection \<open>Evictions of the disk tier\<close>

text \<open>
  C5. After the eleven puts of \<open>once_puts\<close> the disk tier holds \<open>k1\<close> to \<open>k10\<close>: the
  entry accessed least recently, \<open>k0\<close>, has been evicted and a \<open>get\<close> of it misses. The
  statistics report 0 evictions: \<open>limpiar_espacio\<close> does not count the entries it
  removes.
\<close>

theorem limpiar_espacio_no_cuenta_evictions:
  "map fst (metadatos (cache_l2 once_puts)) =
     [''k1'', ''k2'', ''k3'', ''k4'', ''k5'', ''k6'', ''k7'', ''k8'', ''k9'', ''k10'']
   \<and> fst (CacheMultinivel_get lib_demo 12 ''k0'' once_puts) = PyNone
   \<and> evictions (estadisticas once_puts) = 0"
  by (simp add: once_puts_def evaluar_cache CacheMultinivel_init_def)

section \<open>Properties of the task queue\<close>

subsection \<open>The order within a priority\<close>

text \<open>
  Of two tasks of one priority added to an empty, unbounded queue, in either order,
  \<open>obtener_tarea\<close> returns the one created later.
\<close>

lemma obtener_tarea_ultima_creada:
  fixes t1 t2 :: "('f, 'a) TareaParalelizacion"
  assumes "TareaParalelizacion.prioridad t1 = TareaParalelizacion.prioridad t2"
    and "TareaParalelizacion.timestamp_creacion t1 < TareaParalelizacion.timestamp_creacion t2"
    and "id_tarea t1 \<noteq> id_tarea t2"
  shows "map_option id_tarea (fst (obtener_tarea ahora
           (snd (agregar_tarea t2 (snd (agregar_tarea t1 (QueueInteligente_init 0)))))))
         = Some (id_tarea t2)
       \<and> map_option id_tarea (fst (obtener_tarea ahora
           (snd (agregar_tarea t1 (snd (agregar_tarea t2 (QueueInteligente_init 0)))))))
         = Some (id_tarea t2)"
  using assms
  by (cases "TareaParalelizacion.prioridad t2")
     (simp_all add: agregar_tarea_def obtener_tarea_def QueueInteligente_init_def Let_def)

text \<open>
  Across priorities the scan goes from \<open>CRITICA\<close> down to \<open>BAJA\<close>: tasks added in the
  order low, critical, normal leave in the order critical, normal, low.
\<close>

lemma obtener_tarea_por_prioridad:
  "map_option id_tarea (fst (obtener_tarea 4
      (snd (agregar_tarea (tarea_demo ''n'' NORMAL 3)
        (snd (agregar_tarea (tarea_demo ''c'' CRITICA 2)
          (snd (agregar_tarea (tarea_demo ''l'' BAJA 1) (QueueInteligente_init 0)))))))))
     = Some ''c''
   \<and> map_option id_tarea (fst (obtener_tarea 5 (snd (obtener_tarea 4
      (snd (agregar_tarea (tarea_demo ''n'' NORMAL 3)
        (snd (agregar_tarea (tarea_demo ''c'' CRITICA 2)
          (snd (agregar_tarea (tarea_demo ''l'' BAJA 1) (QueueInteligente_init 0)))))))))))
     = Some ''n''
   \<and> map_option id_tarea (fst (obtener_tarea 6 (snd (obtener_tarea 5 (snd (obtener_tarea 4
      (snd (agregar_tarea (tarea_demo ''n'' NORMAL 3)
        (snd (agregar_tarea (tarea_demo ''c'' CRITICA 2)
          (snd (agregar_tarea (tarea_demo ''l'' BAJA 1) (QueueInteligente_init 0)))))))))))))
     = Some ''l''"
  by (simp add: agregar_tarea_def obtener_tarea_def QueueInteligente_init_def tarea_demo_def Let_def)

text \<open>
  C2. Two tasks of priority \<open>NORMAL\<close>, \<open>a\<close> created at time 1 and \<open>b\<close> created at time
  2, are added to an empty, unbounded queue, in either order. \<open>obtener_tarea\<close> returns
  \<open>b\<close>, the later one, first and \<open>a\<close> second: the heap is keyed by the negated creation
  time, so within a priority the newest task leaves first.
\<close>

theorem obtener_tarea_mas_reciente_primero:
  "map_option id_tarea (fst (obtener_tarea 5
      (snd (agregar_tarea (tarea_demo ''b'' NORMAL 2)
        (snd (agregar_tarea (tarea_demo ''a'' NORMAL 1) (QueueInteligente_init 0)))))))
     = Some ''b''
   \<and> map_option id_tarea (fst (obtener_tarea 6 (snd (obtener_tarea 5
      (snd (agregar_tarea (tarea_demo ''b'' NORMAL 2)
        (snd (agregar_tarea (tarea_demo ''a'' NORMAL 1) (QueueInteligente_init 0)))))))))
     = Some ''a''
   \<and> map_option id_tarea (fst (obtener_tarea 5
      (snd (agregar_tarea (tarea_demo ''a'' NORMAL 1)
        (snd (agregar_tarea (tarea_demo ''b'' NORMAL 2) (QueueInteligente_init 0)))))))
     = Some ''b''"
  by (simp add: agregar_tarea_def obtener_tarea_def QueueInteligente_init_def tarea_demo_def Let_def)

subsection \<open>Evaluation on concrete queues and schedulers\<close>

lemmas evaluar_sistema = submit_tarea_def procesar_siguiente_def procesar_tarea_en_worker_def
  generar_tarea_id_def cache_key_de_def str_nat.simps agregar_tarea_def obtener_tarea_def
  cancelar_tarea_def obtener_tarea_por_id_def QueueInteligente_init_def
  SistemaParalelizacion_init_def ejecutar_demo_def cache_demo_def tarea_demo_def
  contar_estado_def tareas_no_terminales_def

subsection \<open>The state of a task\<close>

text \<open>
  C4, counterexample. The task \<open>a\<close> of \<open>cola_en_proceso\<close> is running; \<open>cancelar_tarea\<close>
  returns \<open>True\<close> and the task is cancelled. The task of \<open>sistema_tras_primera\<close> is
  completed; \<open>cancelar_tarea\<close> returns \<open>True\<close> and the task leaves its terminal state
  for \<open>CANCELADA\<close>.
\<close>

theorem cancelar_tarea_en_proceso_contraejemplo:
  "map_option estado (obtener_tarea_por_id ''a'' cola_en_proceso) = Some EN_PROCESO
   \<and> fst (cancelar_tarea 3 ''a'' cola_en_proceso) = True
   \<and> map_option estado (obtener_tarea_por_id ''a'' (snd (cancelar_tarea 3 ''a'' cola_en_proceso)))
       = Some CANCELADA
   \<and> map_option estado (obtener_tarea_por_id ''tarea_1000_42'' (queue_inteligente sistema_tras_primera))
       = Some COMPLETADA
   \<and> fst (cancelar_tarea 3000 ''tarea_1000_42'' (queue_inteligente sistema_tras_primera)) = True
   \<and> map_option estado (obtener_tarea_por_id ''tarea_1000_42''
        (snd (cancelar_tarea 3000 ''tarea_1000_42'' (queue_inteligente sistema_tras_primera))))
       = Some CANCELADA"
  by (simp add: cola_en_proceso_def sistema_tras_primera_def evaluar_sistema evaluar_cache)

text \<open>
  C4, as amended. \<open>cancelar_tarea\<close> and \<open>agregar_tarea\<close> set the state of the task,
  whatever the state was. \<open>cancelar_tarea\<close> on an id the queue has registered returns
  \<open>True\<close>, sets that task to \<open>CANCELADA\<close> with its finish time, and changes no other
  task and no priority queue; on an unknown id it returns \<open>False\<close> and changes nothing.
  \<open>agregar_tarea\<close>, when it accepts, registers the task as \<open>EN_COLA\<close>, and when it
  rejects changes nothing.
\<close>

theorem cancelar_tarea_en_cualquier_estado:
  "(case map_of (tareas q) tid of
      Some t \<Rightarrow>
        fst (cancelar_tarea ahora tid q) = True
        \<and> map_of (tareas (snd (cancelar_tarea ahora tid q))) =
            (map_of (tareas q))(tid \<mapsto> t\<lparr>estado := CANCELADA, timestamp_finalizacion := Some ahora\<rparr>)
        \<and> cola_prioridad (snd (cancelar_tarea ahora tid q)) = cola_prioridad q
    | None \<Rightarrow> cancelar_tarea ahora tid q = (False, q))
   \<and> (if fst (agregar_tarea tarea q)
       then map_of (tareas (snd (agregar_tarea tarea q))) (id_tarea tarea) =
              Some (tarea\<lparr>estado := EN_COLA\<rparr>)
       else snd (agregar_tarea tarea q) = q)"
proof (intro conjI)
  show "case map_of (tareas q) tid of
      Some t \<Rightarrow>
        fst (cancelar_tarea ahora tid q) = True
        \<and> map_of (tareas (snd (cancelar_tarea ahora tid q))) =
            (map_of (tareas q))(tid \<mapsto> t\<lparr>estado := CANCELADA, timestamp_finalizacion := Some ahora\<rparr>)
        \<and> cola_prioridad (snd (cancelar_tarea ahora tid q)) = cola_prioridad q
    | None \<Rightarrow> cancelar_tarea ahora tid q = (False, q)"
    by (simp add: cancelar_tarea_def update_conv' split: option.split)
  show "if fst (agregar_tarea tarea q)
       then map_of (tareas (snd (agregar_tarea tarea q))) (id_tarea tarea) =
              Some (tarea\<lparr>estado := EN_COLA\<rparr>)
       else snd (agregar_tarea tarea q) = q"
    by (simp add: agregar_tarea_def Let_def update_conv')
qed

text \<open>The task that \<open>obtener_tarea\<close> returns is \<open>EN_PROCESO\<close>, with its start time.\<close>

lemma obtener_tarea_bucle_en_proceso:
  "obtener_tarea_bucle ahora ps q = (Some t, q') \<Longrightarrow>
     estado t = EN_PROCESO \<and> timestamp_inicio t = Some ahora"
  by (induction ps arbitrary: q)
     (auto simp: Let_def split: list.splits prod.splits option.splits)

lemma obtener_tarea_en_proceso:
  "obtener_tarea ahora q = (Some t, q') \<Longrightarrow>
     estado t = EN_PROCESO \<and> timestamp_inicio t = Some ahora"
  unfolding obtener_tarea_def by (rule obtener_tarea_bucle_en_proceso)

subsection \<open>The bound of the queue\<close>

text \<open>
  The keys of \<open>tareas\<close> stay distinct, so the length of the list is the number of
  entries of the dict.
\<close>

lemma QueueInteligente_claves_distintas:
  fixes q :: "('f, 'a) QueueInteligente"
  assumes "distinct (map fst (tareas q))"
  shows "distinct (map fst (tareas (snd (agregar_tarea tarea q))))"
    and "distinct (map fst (tareas (snd (cancelar_tarea ahora tid q))))"
  using assms
  by (simp_all add: agregar_tarea_def cancelar_tarea_def Let_def distinct_update split: option.split)

text \<open>
  C6, counterexample. The queue of \<open>sistema_cola_de_uno\<close> has \<open>max_size\<close> 1 and one task,
  which is completed: no task is outstanding. \<open>agregar_tarea\<close> rejects the next task,
  and \<open>submit_tarea\<close> raises.
\<close>

theorem agregar_tarea_cola_llena_contraejemplo:
  "map (\<lambda>(k, t). (k, estado t)) (tareas (queue_inteligente sistema_cola_de_uno))
     = [(''tarea_1000_42'', COMPLETADA)]
   \<and> tareas_no_terminales (queue_inteligente sistema_cola_de_uno) = 0
   \<and> max_size (queue_inteligente sistema_cola_de_uno) = 1
   \<and> fst (agregar_tarea (tarea_demo ''tarea_3000_42'' NORMAL 3000)
        (queue_inteligente sistema_cola_de_uno)) = False
   \<and> fst (fst (submit_tarea lib_demo 3000 7 42 NORMAL GENERAL None None [] [] sistema_cola_de_uno))
     = Inl ''No se pudo agregar tarea a la cola''"
  by (simp add: sistema_cola_de_uno_def evaluar_sistema evaluar_cache)

lemma estados_suman:
  "int (length (filter (\<lambda>(k, t). estado t = PENDIENTE) xs))
   + int (length (filter (\<lambda>(k, t). estado t = EN_COLA) xs))
   + int (length (filter (\<lambda>(k, t). estado t = EN_PROCESO) xs))
   + int (length (filter (\<lambda>(k, t). estado t = COMPLETADA) xs))
   + int (length (filter (\<lambda>(k, t). estado t = FALLIDA) xs))
   + int (length (filter (\<lambda>(k, t). estado t = CANCELADA) xs)) = int (length xs)"
proof (induction xs)
  case Nil
  show ?case by simp
next
  case (Cons x xs)
  obtain k t where x: "x = (k, t)" by (cases x)
  from Cons show ?case
    by (cases "estado t") (simp_all add: x)
qed

text \<open>
  C6, as amended. \<open>agregar_tarea\<close> rejects exactly when \<open>max_size\<close> is positive and the
  number of tasks registered in \<open>tareas\<close> has reached it. \<open>tareas\<close> holds every task the
  queue has accepted, in whatever state, and no operation removes an entry: its length
  is the number of the outstanding tasks plus the completed, the failed and the
  cancelled ones.
\<close>

theorem agregar_tarea_cuenta_todas:
  "(fst (agregar_tarea tarea q) = False) =
      (max_size q > 0 \<and> max_size q \<le> int (length (tareas q)))
   \<and> tareas_no_terminales q + contar_estado COMPLETADA q + contar_estado FALLIDA q
        + contar_estado CANCELADA q = int (length (tareas q))"
proof
  show "(fst (agregar_tarea tarea q) = False) =
      (max_size q > 0 \<and> max_size q \<le> int (length (tareas q)))"
    by (simp add: agregar_tarea_def Let_def)
  show "tareas_no_terminales q + contar_estado COMPLETADA q + contar_estado FALLIDA q
        + contar_estado CANCELADA q = int (length (tareas q))"
    using estados_suman [of "tareas q"]
    by (simp add: tareas_no_terminales_def contar_estado_def)
qed

section \<open>Properties of the scheduler\<close>


end
